theory Spec2Isabelle
  imports Complex_Main
begin

section \<open>Python strings\<close>

text \<open>
  A Python \<open>str\<close> is modelled as a \<open>string\<close>, one \<open>char\<close> per character (code points
  below 256). \<open>py_isspace\<close> is \<open>str.isspace\<close> on one character, which is also what
  \<open>str.strip()\<close> removes and what \<open>\s\<close> matches in a \<open>str\<close> pattern.
\<close>

definition py_isspace :: "char \<Rightarrow> bool" where
  "py_isspace c =
     (let n = of_char c :: nat
      in (9 \<le> n \<and> n \<le> 13) \<or> (28 \<le> n \<and> n \<le> 32) \<or> n = 133 \<or> n = 160)"

definition py_strip :: "string \<Rightarrow> string" where
  "py_strip s = rev (dropWhile py_isspace (rev (dropWhile py_isspace s)))"

text \<open>
  \<open>str.lower()\<close> on one character below 256: the letters A to Z and the Latin-1
  capitals U+00C0 to U+00DE, without the multiplication sign U+00D7, move up by 32;
  every other character stays.
\<close>

definition py_lower_char :: "char \<Rightarrow> char" where
  "py_lower_char c =
     (let n = of_char c :: nat
      in if (65 \<le> n \<and> n \<le> 90) \<or> (192 \<le> n \<and> n \<le> 222 \<and> n \<noteq> 215)
         then char_of (n + 32) else c)"

definition py_lower :: "string \<Rightarrow> string" where
  "py_lower s = map py_lower_char s"

text \<open>\<open>s.startswith(p)\<close> and \<open>p in s\<close>.\<close>

fun startswith :: "string \<Rightarrow> string \<Rightarrow> bool" where
  "startswith s [] = True"
| "startswith [] (p # ps) = False"
| "startswith (c # cs) (p # ps) = (c = p \<and> startswith cs ps)"

fun py_in :: "string \<Rightarrow> string \<Rightarrow> bool" where
  "py_in p [] = (p = [])"
| "py_in p (c # cs) = (startswith (c # cs) p \<or> py_in p cs)"

text \<open>\<open>sep.join(xs)\<close>.\<close>

fun join :: "string \<Rightarrow> string list \<Rightarrow> string" where
  "join sep [] = []"
| "join sep [x] = x"
| "join sep (x # y # ys) = x @ sep @ join sep (y # ys)"

text \<open>\<open>str(n)\<close> for a non-negative integer.\<close>

fun str_nat :: "nat \<Rightarrow> string" where
  "str_nat n =
     (if n < 10 then [char_of (48 + n)] else str_nat (n div 10) @ [char_of (48 + n mod 10)])"

definition str_int :: "int \<Rightarrow> string" where
  "str_int i = (if i < 0 then CHR ''-'' # str_nat (nat (- i)) else str_nat (nat i))"

section \<open>Mindmap strategy: rendering, validation, metadata\<close>

text \<open>
  \<open>MindmapNode\<close> of \<open>mindmap_strategy.py\<close>: a title and an optional list of children.
\<close>

datatype mindmap_node = MindmapNode (title: string) (children: "mindmap_node list option")

text \<open>
  \<open>MindmapStrategy._json_to_markdown\<close>. A node at \<open>current_depth \<ge> max_depth\<close> gives the
  empty string; otherwise its heading line comes first and every non-empty rendering
  of a child follows, the pieces joined by a line feed.
\<close>

fun json_to_markdown :: "mindmap_node \<Rightarrow> int \<Rightarrow> int \<Rightarrow> string" where
  "json_to_markdown (MindmapNode ttl chs) max_depth current_depth =
     (if current_depth \<ge> max_depth then []
      else
        (let heading_prefix = replicate (nat (current_depth + 1)) CHR ''#'';
             markdown_lines =
               (heading_prefix @ '' '' @ ttl) #
               (case chs of
                  None \<Rightarrow> []
                | Some cs \<Rightarrow>
                    filter (\<lambda>child_markdown. child_markdown \<noteq> [])
                      (map (\<lambda>child. json_to_markdown child max_depth (current_depth + 1)) cs))
         in join ''\<newline>'' markdown_lines))"

text \<open>\<open>MindmapStrategy._count_nodes\<close>.\<close>

fun count_nodes :: "mindmap_node \<Rightarrow> int" where
  "count_nodes (MindmapNode ttl chs) =
     1 + (case chs of None \<Rightarrow> 0 | Some cs \<Rightarrow> sum_list (map count_nodes cs))"

text \<open>
  \<open>MindmapStrategy._calculate_depth\<close>: a node without children (\<open>None\<close> or the empty
  list) has the current depth; otherwise the maximum over the children, starting
  from 0.
\<close>

fun calculate_depth :: "mindmap_node \<Rightarrow> int \<Rightarrow> int" where
  "calculate_depth (MindmapNode ttl chs) current_depth =
     (case chs of
        None \<Rightarrow> current_depth
      | Some cs \<Rightarrow>
          if cs = [] then current_depth
          else foldl (\<lambda>max_child_depth child.
                 max max_child_depth (calculate_depth child (current_depth + 1))) 0 cs)"


text \<open>
  \<open>MindmapStrategy.validate_content\<close> searches the content for the pattern
  \<open>^\s*#+\s.+\<close> with \<open>re.MULTILINE\<close>: at the start of a line, any whitespace, one or
  more \<open>#\<close>, one whitespace character, and at least one character that is not a line
  feed. \<open>match_heading\<close> matches the pattern at one position, \<open>search_heading\<close>
  tries every position that starts a line.
\<close>

fun match_any_plus :: "string \<Rightarrow> bool" where
  "match_any_plus [] = False"
| "match_any_plus (c # cs) = (c \<noteq> CHR ''\<newline>'')"

fun match_hashes :: "string \<Rightarrow> bool" where
  "match_hashes [] = False"
| "match_hashes (c # cs) =
     ((c = CHR ''#'' \<and> match_hashes cs) \<or> (py_isspace c \<and> match_any_plus cs))"

fun match_heading :: "string \<Rightarrow> bool" where
  "match_heading [] = False"
| "match_heading (c # cs) =
     ((py_isspace c \<and> match_heading cs) \<or> (c = CHR ''#'' \<and> match_hashes cs))"

fun search_heading :: "bool \<Rightarrow> string \<Rightarrow> bool" where
  "search_heading at_line_start [] = False"
| "search_heading at_line_start (c # cs) =
     ((at_line_start \<and> match_heading (c # cs)) \<or> search_heading (c = CHR ''\<newline>'') cs)"

definition validate_content_mindmap :: "string \<Rightarrow> bool" where
  "validate_content_mindmap content =
     (if content = [] \<or> length (py_strip content) < 10 then False
      else if \<not> search_heading True content then False
      else if length content > 50000 then False
      else True)"

text \<open>\<open>FlowchartStrategy.validate_content\<close>.\<close>

definition validate_content_flowchart :: "string \<Rightarrow> bool" where
  "validate_content_flowchart content =
     (if content = [] \<or> length (py_strip content) < 10 then False
      else if \<not> startswith (py_strip content) ''flowchart'' then False
      else if length content > 50000 then False
      else True)"

section \<open>Exceptions, options and results\<close>

text \<open>
  The exception classes the handlers distinguish. \<open>json.JSONDecodeError\<close> and pydantic's
  \<open>ValidationError\<close> are subclasses of \<open>ValueError\<close>; every class here is a subclass
  of \<open>Exception\<close>, so \<open>except Exception\<close> catches all of them. \<open>ServerError\<close> is
  \<open>google.genai.errors.ServerError\<close>; \<open>OtherException\<close> stands for a class outside
  these hierarchies.
\<close>

datatype exception_class =
  ValueError | JSONDecodeError | ValidationError | RuntimeError | ServerError | OtherException

definition issubclass :: "exception_class \<Rightarrow> exception_class \<Rightarrow> bool" where
  "issubclass c base =
     (c = base \<or> (base = ValueError \<and> (c = JSONDecodeError \<or> c = ValidationError)))"

text \<open>
  What the handlers read from an exception: its class, \<open>str(exc)\<close>, and the attributes
  \<open>status_code\<close> and \<open>response\<close> (with its \<open>status_code\<close> and \<open>status\<close>) that the job
  runner looks up with \<open>getattr(..., None)\<close>.
\<close>

record http_response =
  resp_status_code :: "int option"
  resp_status :: "int option"

record py_exception =
  exc_class :: exception_class
  exc_str :: string
  exc_status_code :: "int option"
  exc_response :: "http_response option"

definition new_exception :: "exception_class \<Rightarrow> string \<Rightarrow> py_exception" where
  "new_exception cls msg =
     \<lparr>exc_class = cls, exc_str = msg, exc_status_code = None, exc_response = None\<rparr>"

text \<open>\<open>VisualizationOptions\<close> and \<open>VisualizationResult\<close> of \<open>visualization_strategy.py\<close>.\<close>

record visualization_options =
  complexity :: string
  max_depth :: int
  style :: string

record visualization_result =
  result_type :: string
  result_content :: string
  result_metadata :: "(string \<times> int) list"

section \<open>The strategies' generate\<close>

text \<open>
  The call to the provider is the input \<open>reply\<close>: the text it returned, or the exception
  it raised. Turning that text into the intermediate form (the search for the fenced
  block, \<open>json.loads\<close>, \<open>MindmapNode.model_validate\<close>, and for flowcharts
  \<open>_json_to_mermaid\<close>) is a parameter that returns the value or the exception raised.
\<close>

record backend =
  to_mermaid :: "string \<Rightarrow> py_exception + string"
  parse_mindmap :: "string \<Rightarrow> py_exception + mindmap_node"

text \<open>The body of the \<open>try\<close> block of \<open>MindmapStrategy.generate\<close> from the parsed tree on.\<close>

definition mindmap_render :: "mindmap_node \<Rightarrow> visualization_options \<Rightarrow> py_exception + visualization_result" where
  "mindmap_render mindmap_data options =
     (let markdown_content = json_to_markdown mindmap_data (max_depth options) 0
      in if \<not> validate_content_mindmap markdown_content
         then Inl (new_exception ValueError ''Generated mindmap markdown content is invalid.'')
         else Inr \<lparr>result_type = ''mindmap'',
                   result_content = markdown_content,
                   result_metadata =
                     [(''total_nodes'', count_nodes mindmap_data),
                      (''actual_depth'', calculate_depth mindmap_data 1),
                      (''requested_max_depth'', max_depth options)]\<rparr>)"

definition mindmap_try :: "backend \<Rightarrow> py_exception + string \<Rightarrow> visualization_options \<Rightarrow> py_exception + visualization_result" where
  "mindmap_try be reply options =
     (case reply of
        Inl e \<Rightarrow> Inl e
      | Inr llm_output \<Rightarrow>
          (case parse_mindmap be llm_output of
             Inl e \<Rightarrow> Inl e
           | Inr mindmap_data \<Rightarrow> mindmap_render mindmap_data options))"

text \<open>The \<open>except\<close> clauses of \<open>MindmapStrategy.generate\<close>, in their order.\<close>

definition mindmap_except :: "py_exception \<Rightarrow> py_exception" where
  "mindmap_except e =
     (if issubclass (exc_class e) ValidationError
      then new_exception ValueError (''LLM generated invalid JSON for Mindmap: '' @ exc_str e)
      else if issubclass (exc_class e) JSONDecodeError
      then new_exception ValueError (''Failed to parse JSON from LLM response: '' @ exc_str e)
      else new_exception RuntimeError (''Mindmap generation failed: '' @ exc_str e))"

definition mindmap_generate :: "backend \<Rightarrow> py_exception + string \<Rightarrow> visualization_options \<Rightarrow> py_exception + visualization_result" where
  "mindmap_generate be reply options =
     (case mindmap_try be reply options of
        Inr result \<Rightarrow> Inr result
      | Inl e \<Rightarrow> Inl (mindmap_except e))"

text \<open>\<open>FlowchartStrategy.generate\<close>: the \<open>try\<close> block and its \<open>except\<close> clauses.\<close>

definition flowchart_try :: "backend \<Rightarrow> py_exception + string \<Rightarrow> visualization_options \<Rightarrow> py_exception + visualization_result" where
  "flowchart_try be reply options =
     (case reply of
        Inl e \<Rightarrow> Inl e
      | Inr raw_llm_output \<Rightarrow>
          (case to_mermaid be raw_llm_output of
             Inl e \<Rightarrow> Inl e
           | Inr mermaid_code \<Rightarrow>
               if \<not> validate_content_flowchart mermaid_code
               then Inl (new_exception ValueError ''Generated Mermaid flowchart content is invalid.'')
               else Inr \<lparr>result_type = ''flowchart'',
                         result_content = mermaid_code,
                         result_metadata = []\<rparr>))"

definition flowchart_except :: "py_exception \<Rightarrow> py_exception" where
  "flowchart_except e =
     (if issubclass (exc_class e) JSONDecodeError
      then new_exception ValueError (''Failed to parse JSON from LLM response: '' @ exc_str e)
      else new_exception RuntimeError (''Flowchart generation failed: '' @ exc_str e))"

definition flowchart_generate :: "backend \<Rightarrow> py_exception + string \<Rightarrow> visualization_options \<Rightarrow> py_exception + visualization_result" where
  "flowchart_generate be reply options =
     (case flowchart_try be reply options of
        Inr result \<Rightarrow> Inr result
      | Inl e \<Rightarrow> Inl (flowchart_except e))"

section \<open>The strategy registry\<close>

text \<open>
  \<open>VisualizationFactory\<close>: the dictionary \<open>_strategies\<close> in insertion order, filled by
  \<open>__init__\<close>. \<open>register_strategy\<close> and \<open>create_strategy\<close> lower-case the name.
\<close>

datatype strategy_class = FlowchartStrategy | MindmapStrategy

type_synonym registry = "(string \<times> strategy_class) list"

fun dict_set :: "('k \<times> 'v) list \<Rightarrow> 'k \<Rightarrow> 'v \<Rightarrow> ('k \<times> 'v) list" where
  "dict_set [] k v = [(k, v)]"
| "dict_set ((k', v') # kvs) k v =
     (if k' = k then (k, v) # kvs else (k', v') # dict_set kvs k v)"

definition register_strategy :: "registry \<Rightarrow> string \<Rightarrow> strategy_class \<Rightarrow> registry" where
  "register_strategy strategies type_name cls = dict_set strategies (py_lower type_name) cls"

definition get_supported_types :: "registry \<Rightarrow> string list" where
  "get_supported_types strategies = map fst strategies"

definition create_strategy :: "registry \<Rightarrow> string \<Rightarrow> py_exception + strategy_class" where
  "create_strategy strategies type_name =
     (case map_of strategies (py_lower type_name) of
        None \<Rightarrow>
          Inl (new_exception ValueError
                 (''Unsupported visualization type: '' @ [CHR 0x27] @ type_name @ [CHR 0x27] @ ''. ''
                  @ ''Supported types are: '' @ join '', '' (map fst strategies) @ ''.''))
      | Some cls \<Rightarrow> Inr cls)"

definition visualization_factory :: registry where
  "visualization_factory =
     register_strategy (register_strategy [] ''flowchart'' FlowchartStrategy)
       ''mindmap'' MindmapStrategy"

section \<open>generate_visualization\<close>

definition strategy_generate :: "strategy_class \<Rightarrow> backend \<Rightarrow> py_exception + string \<Rightarrow> visualization_options \<Rightarrow> py_exception + visualization_result" where
  "strategy_generate cls be reply options =
     (case cls of
        FlowchartStrategy \<Rightarrow> flowchart_generate be reply options
      | MindmapStrategy \<Rightarrow> mindmap_generate be reply options)"

text \<open>
  \<open>generate_visualization\<close> of \<open>llm_service.py\<close>: a \<open>ValueError\<close> is raised again as a
  \<open>ValueError\<close>, every other exception as a \<open>RuntimeError\<close>.
\<close>

definition generate_visualization :: "backend \<Rightarrow> py_exception + string \<Rightarrow> string \<Rightarrow> visualization_options \<Rightarrow> py_exception + visualization_result" where
  "generate_visualization be reply visualization_type options =
     (case (case create_strategy visualization_factory visualization_type of
              Inl e \<Rightarrow> Inl e
            | Inr strategy \<Rightarrow> strategy_generate strategy be reply options) of
        Inr result \<Rightarrow> Inr result
      | Inl e \<Rightarrow>
          if issubclass (exc_class e) ValueError
          then Inl (new_exception ValueError (''Visualization error: '' @ exc_str e))
          else Inl (new_exception RuntimeError
                      (''Failed to generate visualization of type '' @ [CHR 0x27]
                       @ visualization_type @ [CHR 0x27] @ '': '' @ exc_str e)))"

section \<open>Jobs and the job store\<close>

text \<open>
  \<open>main.py\<close>. A \<open>datetime\<close> is a number of microseconds; the store \<open>_jobs\<close> is a map
  from job identifiers to jobs.
\<close>

type_synonym datetime = int

datatype job_status = PENDING | RUNNING | SUCCEEDED | FAILED

record visualization_job =
  job_ident :: string
  status :: job_status
  visualization_type :: string
  content :: "string option"
  metadata :: "(string \<times> int) list"
  error :: "string option"
  created_at :: datetime
  updated_at :: datetime
  expires_at :: datetime
  attempts :: int

type_synonym job_store = "string \<rightharpoonup> visualization_job"

record visualization_request =
  req_question :: string
  req_visualization_type :: string
  req_options :: visualization_options

record visualization_job_create_response =
  created_job_id :: string
  created_status :: job_status

record visualization_job_status_response =
  r_job_id :: string
  r_status :: job_status
  r_visualization_type :: string
  r_content :: "string option"
  r_metadata :: "(string \<times> int) list"
  r_error :: "string option"

record http_exception =
  http_status_code :: int
  detail :: string

text \<open>The arguments of the background task that \<open>visualize\<close> spawns.\<close>

record task =
  task_job_id :: string
  task_question :: string
  task_visualization_type :: string
  task_options :: visualization_options

section \<open>The attempt loop\<close>

text \<open>
  One attempt reads the clock when it starts, awaits the generation, and reads the
  clock once more in the branch that ends it. What the awaited call does is the
  \<open>outcome\<close>: for the job runner it is what \<open>generate_visualization\<close> returns or
  raises, for the whole program it is what the provider returns or raises.
\<close>

record 'a attempt =
  started_at :: datetime
  outcome :: 'a
  finished_at :: datetime

text \<open>
  The log of a run: every write of the job to the store, every call of
  \<open>generate_visualization\<close> and every sleep, in order. Between two awaits no other
  task runs, so the writes are the states a poll can see.
\<close>

datatype event = Stored visualization_job | Generate int | Sleep rat

definition max_attempts :: int where
  "max_attempts = 3"

definition base_delay_seconds :: rat where
  "base_delay_seconds = 3 / 2"

text \<open>Python's \<open>a or b\<close> on optional integers: \<open>None\<close> and \<open>0\<close> are false.\<close>

definition py_or :: "int option \<Rightarrow> int option \<Rightarrow> int option" where
  "py_or a b = (case a of None \<Rightarrow> b | Some n \<Rightarrow> if n = 0 then b else Some n)"

text \<open>
  The status code of a \<open>ServerError\<close>: the attribute \<open>status_code\<close>, else the
  response's \<open>status_code\<close> or \<open>status\<close>, else a guess from the lower-cased text.
\<close>

definition resolve_status_code :: "py_exception \<Rightarrow> int option" where
  "resolve_status_code exc =
     (let status_code = exc_status_code exc;
          status_code =
            (if status_code = None
             then (case exc_response exc of
                     None \<Rightarrow> status_code
                   | Some resp \<Rightarrow> py_or (resp_status_code resp) (resp_status resp))
             else status_code);
          status_code =
            (if status_code = None
             then (let text = py_lower (exc_str exc)
                   in if py_in ''503'' text \<or> py_in ''unavailable'' text \<or> py_in ''overloaded'' text
                      then Some 503
                      else if py_in ''429'' text \<or> py_in ''too many requests'' text
                              \<or> py_in ''rate limit'' text
                      then Some 429
                      else status_code)
             else status_code)
      in status_code)"

text \<open>
  \<open>base_delay_seconds * (2 ** (attempt - 1))\<close>, and the format \<open>{delay:.1f}\<close>, which is
  exact on the delays that occur (1.5 and 3.0).
\<close>

definition backoff_delay :: "int \<Rightarrow> rat" where
  "backoff_delay attempt = base_delay_seconds * 2 ^ nat (attempt - 1)"

definition format_1f :: "rat \<Rightarrow> string" where
  "format_1f x =
     (let tenths = nat \<lfloor>x * 10 + 1 / 2\<rfloor>
      in str_nat (tenths div 10) @ ''.'' @ str_nat (tenths mod 10))"

definition str_status_code :: "int option \<Rightarrow> string" where
  "str_status_code sc = (case sc of None \<Rightarrow> ''None'' | Some n \<Rightarrow> str_int n)"

text \<open>
  The \<open>for\<close> loop of \<open>_run_visualization_job\<close> over the remaining attempt numbers, with
  the local \<open>job\<close> and the store. Each \<open>return\<close> ends the recursion, \<open>continue\<close> is the
  recursive call.
\<close>

fun attempt_loop ::
  "(int \<Rightarrow> (py_exception + visualization_result) attempt) \<Rightarrow> int list \<Rightarrow> string \<Rightarrow>
     visualization_job \<Rightarrow> job_store \<Rightarrow> job_store \<times> event list" where
  "attempt_loop env [] job_id job jobs = (jobs, [])"
| "attempt_loop env (attempt # rest) job_id job jobs =
     (let job = job\<lparr>status := RUNNING, attempts := attempt, updated_at := started_at (env attempt)\<rparr>;
          jobs = jobs(job_id \<mapsto> job);
          now = finished_at (env attempt)
      in case outcome (env attempt) of
           Inr result \<Rightarrow>
             (let job' = job\<lparr>content := Some (result_content result),
                              metadata := result_metadata result,
                              status := SUCCEEDED, updated_at := now\<rparr>
              in (jobs(job_id \<mapsto> job'), [Stored job, Generate attempt, Stored job']))
         | Inl exc \<Rightarrow>
             if issubclass (exc_class exc) ValueError \<or> issubclass (exc_class exc) RuntimeError
             then
               (let job' = job\<lparr>status := FAILED, error := Some (exc_str exc), updated_at := now\<rparr>
                in (jobs(job_id \<mapsto> job'), [Stored job, Generate attempt, Stored job']))
             else if issubclass (exc_class exc) ServerError
             then
               (let status_code = resolve_status_code exc
                in if (status_code = Some 503 \<or> status_code = Some 429) \<and> attempt < max_attempts
                   then
                     (let delay = backoff_delay attempt;
                          job' = job\<lparr>status := PENDING,
                                      error := Some (''Transient Gemini error (status=''
                                                @ str_status_code status_code @ ''). Retrying in ''
                                                @ format_1f delay @ ''s.''),
                                      updated_at := now\<rparr>;
                          (jobs', events) = attempt_loop env rest job_id job' (jobs(job_id \<mapsto> job'))
                      in (jobs', [Stored job, Generate attempt, Stored job', Sleep delay] @ events))
                   else
                     (let job' = job\<lparr>status := FAILED,
                                      error := Some
                                        (if status_code = Some 503
                                         then ''The Gemini model is still overloaded after multiple attempts. ''
                                              @ ''Please wait a bit and try again.''
                                         else if status_code = Some 429
                                         then ''Gemini rate limit was hit several times in a row. ''
                                              @ ''Please slow down and try again shortly.''
                                         else ''Gemini returned an error while generating the diagram: ''
                                              @ exc_str exc),
                                      updated_at := now\<rparr>
                      in (jobs(job_id \<mapsto> job'), [Stored job, Generate attempt, Stored job'])))
             else
               (let job' = job\<lparr>status := FAILED,
                                error := Some (''Unexpected error: '' @ exc_str exc),
                                updated_at := now\<rparr>
                in (jobs(job_id \<mapsto> job'), [Stored job, Generate attempt, Stored job'])))"

text \<open>
  \<open>_run_visualization_job\<close>, with the behaviour of the awaited
  \<open>generate_visualization\<close> given per attempt number.
\<close>

definition run_visualization_job ::
  "(int \<Rightarrow> (py_exception + visualization_result) attempt) \<Rightarrow> string \<Rightarrow> job_store \<Rightarrow>
     job_store \<times> event list" where
  "run_visualization_job env job_id jobs =
     (case jobs job_id of
        None \<Rightarrow> (jobs, [])
      | Some job \<Rightarrow> attempt_loop env [1..max_attempts] job_id job jobs)"

text \<open>
  The background task as the program runs it: the awaited call is
  \<open>generate_visualization\<close> of \<open>llm_service.py\<close>, and \<open>world\<close> gives, per attempt, what
  the provider does.
\<close>

definition program_env ::
  "backend \<Rightarrow> (int \<Rightarrow> (py_exception + string) attempt) \<Rightarrow> task \<Rightarrow>
     int \<Rightarrow> (py_exception + visualization_result) attempt" where
  "program_env be world t attempt =
     \<lparr>started_at = started_at (world attempt),
      outcome = generate_visualization be (outcome (world attempt))
                  (task_visualization_type t) (task_options t),
      finished_at = finished_at (world attempt)\<rparr>"

definition run_task ::
  "backend \<Rightarrow> (int \<Rightarrow> (py_exception + string) attempt) \<Rightarrow> task \<Rightarrow> job_store \<Rightarrow>
     job_store \<times> event list" where
  "run_task be world t jobs = run_visualization_job (program_env be world t) (task_job_id t) jobs"

section \<open>Creating and polling jobs\<close>

text \<open>
  \<open>visualize\<close>: \<open>new_id\<close> is the fresh \<open>uuid4\<close>, \<open>now\<close> the clock. The result is the HTTP
  error or the response with the spawned task, and the store afterwards.
\<close>

definition visualize ::
  "visualization_request \<Rightarrow> string \<Rightarrow> datetime \<Rightarrow> job_store \<Rightarrow>
     (http_exception + visualization_job_create_response \<times> task) \<times> job_store" where
  "visualize request new_id now jobs =
     (let supported_types = get_supported_types visualization_factory
      in if py_lower (req_visualization_type request) \<notin> set supported_types
         then (Inl \<lparr>http_status_code = 400,
                    detail = ''Unsupported visualization type: '' @ [CHR 0x27]
                             @ req_visualization_type request @ [CHR 0x27] @ ''. ''
                             @ ''Supported types are: '' @ join '', '' supported_types @ ''.''\<rparr>,
               jobs)
         else
           (let job_id = new_id;
                job = \<lparr>job_ident = job_id,
                       status = PENDING,
                       visualization_type = py_lower (req_visualization_type request),
                       content = None,
                       metadata = [],
                       error = None,
                       created_at = now,
                       updated_at = now,
                       expires_at = now + 3600 * 1000000,
                       attempts = 0\<rparr>
            in (Inr (\<lparr>created_job_id = job_id, created_status = PENDING\<rparr>,
                     \<lparr>task_job_id = job_id,
                      task_question = req_question request,
                      task_visualization_type = req_visualization_type request,
                      task_options = req_options request\<rparr>),
                jobs(job_id \<mapsto> job))))"

text \<open>\<open>get_visualization_job\<close>: the poll, with the clock \<open>now\<close>.\<close>

definition get_visualization_job ::
  "string \<Rightarrow> datetime \<Rightarrow> job_store \<Rightarrow>
     (http_exception + visualization_job_status_response) \<times> job_store" where
  "get_visualization_job job_id now jobs =
     (case jobs job_id of
        None \<Rightarrow>
          (Inl \<lparr>http_status_code = 404,
                detail = ''Visualization job '' @ [CHR 0x27] @ job_id @ [CHR 0x27]
                         @ '' not found or expired.''\<rparr>,
           jobs)
      | Some job \<Rightarrow>
          if expires_at job < now
          then (Inl \<lparr>http_status_code = 404,
                     detail = ''Visualization job '' @ [CHR 0x27] @ job_id @ [CHR 0x27]
                              @ '' has expired and was removed.''\<rparr>,
                jobs(job_id := None))
          else (Inr \<lparr>r_job_id = job_ident job,
                     r_status = status job,
                     r_visualization_type = visualization_type job,
                     r_content = content job,
                     r_metadata = metadata job,
                     r_error = error job\<rparr>,
                jobs))"

section \<open>Reading a rendering and a run\<close>

text \<open>
  The nodes of a tree in the order the renderer visits them, each with its depth
  (the root of \<open>preorder node d\<close> is at depth \<open>d\<close>), the heading line the renderer
  writes for a node, and the nodes that are not pruned under a depth limit.
\<close>

fun preorder :: "mindmap_node \<Rightarrow> int \<Rightarrow> (int \<times> string) list" where
  "preorder (MindmapNode ttl chs) depth =
     (depth, ttl) #
     (case chs of
        None \<Rightarrow> []
      | Some cs \<Rightarrow> concat (map (\<lambda>child. preorder child (depth + 1)) cs))"

definition heading_line :: "int \<times> string \<Rightarrow> string" where
  "heading_line p = replicate (nat (fst p + 1)) CHR ''#'' @ '' '' @ snd p"

definition rendered_nodes :: "mindmap_node \<Rightarrow> int \<Rightarrow> (int \<times> string) list" where
  "rendered_nodes node limit = filter (\<lambda>p. fst p < limit) (preorder node 0)"

text \<open>
  The number of levels of a tree, counted on the tree itself: one more than the
  greatest depth of a node, the root being at depth 0.
\<close>

definition tree_levels :: "mindmap_node \<Rightarrow> int" where
  "tree_levels tree = Max (set (map fst (preorder tree 0))) + 1"

text \<open>The lines of a text: the pieces between its line feeds.\<close>

fun split_lines :: "string \<Rightarrow> string list" where
  "split_lines [] = [[]]"
| "split_lines (c # cs) =
     (if c = CHR ''\<newline>'' then [] # split_lines cs
      else (case split_lines cs of
              [] \<Rightarrow> [[c]]
            | l # ls \<Rightarrow> (c # l) # ls))"

text \<open>The level of a heading line: the number of \<open>#\<close> it starts with.\<close>

definition heading_level :: "string \<Rightarrow> nat" where
  "heading_level line = length (takeWhile (\<lambda>c. c = CHR ''#'') line)"



text \<open>The calls, the sleeps and the stored jobs of a log.\<close>

definition generates :: "event list \<Rightarrow> int list" where
  "generates events = concat (map (\<lambda>e. case e of Generate a \<Rightarrow> [a] | _ \<Rightarrow> []) events)"

definition sleeps :: "event list \<Rightarrow> rat list" where
  "sleeps events = concat (map (\<lambda>e. case e of Sleep d \<Rightarrow> [d] | _ \<Rightarrow> []) events)"

definition snapshots :: "event list \<Rightarrow> visualization_job list" where
  "snapshots events = concat (map (\<lambda>e. case e of Stored j \<Rightarrow> [j] | _ \<Rightarrow> []) events)"

text \<open>
  An exception is transient for the job runner when it reaches the \<open>ServerError\<close>
  handler and its status code resolves to 503 or 429. \<open>failure_text\<close> is the message
  the runner stores for an exception that is not transient.
\<close>

definition transient :: "py_exception \<Rightarrow> bool" where
  "transient exc =
     (exc_class exc = ServerError \<and>
      (resolve_status_code exc = Some 503 \<or> resolve_status_code exc = Some 429))"

definition failure_text :: "py_exception \<Rightarrow> string" where
  "failure_text exc =
     (if issubclass (exc_class exc) ValueError \<or> issubclass (exc_class exc) RuntimeError
      then exc_str exc
      else if issubclass (exc_class exc) ServerError
      then ''Gemini returned an error while generating the diagram: '' @ exc_str exc
      else ''Unexpected error: '' @ exc_str exc)"

definition running :: "visualization_job \<Rightarrow> int \<Rightarrow> datetime \<Rightarrow> visualization_job" where
  "running job attempt t = job\<lparr>status := RUNNING, attempts := attempt, updated_at := t\<rparr>"

text \<open>
  The error field is present when it holds a non-empty message. A job is mid-retry
  when it is back in \<open>PENDING\<close> after an attempt, or \<open>RUNNING\<close> on a second or third
  attempt.
\<close>

definition error_present :: "visualization_job \<Rightarrow> bool" where
  "error_present j = (case error j of None \<Rightarrow> False | Some m \<Rightarrow> m \<noteq> [])"

definition mid_retry :: "visualization_job \<Rightarrow> bool" where
  "mid_retry j =
     ((status j = PENDING \<and> 1 \<le> attempts j) \<or> (status j = RUNNING \<and> 2 \<le> attempts j))"

subsection \<open>Sample inputs\<close>

definition gemini_overloaded :: py_exception where
  "gemini_overloaded =
     \<lparr>exc_class = ServerError, exc_str = ''503 UNAVAILABLE'',
      exc_status_code = Some 503, exc_response = None\<rparr>"

definition example_request :: visualization_request where
  "example_request =
     \<lparr>req_question = ''How does DNS work?'', req_visualization_type = ''Flowchart'',
      req_options = \<lparr>complexity = ''balanced'', max_depth = 4, style = ''default''\<rparr>\<rparr>"

definition example_store :: job_store where
  "example_store = snd (visualize example_request ''job-1'' 0 Map.empty)"

definition example_task :: task where
  "example_task =
     \<lparr>task_job_id = ''job-1'', task_question = ''How does DNS work?'',
      task_visualization_type = ''Flowchart'',
      task_options = \<lparr>complexity = ''balanced'', max_depth = 4, style = ''default''\<rparr>\<rparr>"

text \<open>\<open>generate_visualization\<close> raising the overload error on every attempt.\<close>

definition always_overloaded :: "int \<Rightarrow> (py_exception + visualization_result) attempt" where
  "always_overloaded attempt =
     \<lparr>started_at = 10 * attempt, outcome = Inl gemini_overloaded,
      finished_at = 10 * attempt + 5\<rparr>"

text \<open>The overload error on the first attempt, a \<open>ValueError\<close> afterwards.\<close>

definition overloaded_then_invalid :: "int \<Rightarrow> (py_exception + visualization_result) attempt" where
  "overloaded_then_invalid attempt =
     \<lparr>started_at = 10 * attempt,
      outcome = (if attempt = 1 then Inl gemini_overloaded
                 else Inl (new_exception ValueError ''Visualization error: bad JSON'')),
      finished_at = 10 * attempt + 5\<rparr>"

text \<open>A tree that is one chain of nodes, and the chains with six and seven levels.\<close>

fun chain :: "string list \<Rightarrow> mindmap_node list" where
  "chain [] = []"
| "chain (t # ts) = [MindmapNode t (Some (chain ts))]"

definition chain6 :: mindmap_node where
  "chain6 =
     MindmapNode ''Topic'' (Some (chain [''Branch'', ''Detail'', ''Note'', ''Remark'', ''Aside'']))"


text \<open>The chain with six levels whose root title holds a line feed.\<close>

definition linefeed_title_tree :: mindmap_node where
  "linefeed_title_tree =
     MindmapNode ''Topic\<newline>###### Deep''
       (Some (chain [''Branch'', ''Detail'', ''Note'', ''Remark'', ''Aside'']))"

text \<open>The provider raising the overload error on every call, and a backend.\<close>

definition provider_overloaded :: "int \<Rightarrow> (py_exception + string) attempt" where
  "provider_overloaded attempt =
     \<lparr>started_at = 10 * attempt, outcome = Inl gemini_overloaded,
      finished_at = 10 * attempt + 5\<rparr>"

definition example_backend :: backend where
  "example_backend =
     \<lparr>to_mermaid = (\<lambda>text. Inr text), parse_mindmap = (\<lambda>text. Inr chain6)\<rparr>"

text \<open>The overload error on the first attempt, a result afterwards.\<close>

definition overloaded_then_success :: "int \<Rightarrow> (py_exception + visualization_result) attempt" where
  "overloaded_then_success attempt =
     \<lparr>started_at = 10 * attempt,
      outcome = (if attempt = 1 then Inl gemini_overloaded
                 else Inr \<lparr>result_type = ''flowchart'',
                           result_content = ''flowchart TD'', result_metadata = []\<rparr>),
      finished_at = 10 * attempt + 5\<rparr>"

section \<open>Properties of the attempt loop\<close>

lemma generates_append [simp]: "generates (xs @ ys) = generates xs @ generates ys"
  by (simp add: generates_def)

lemma sleeps_append [simp]: "sleeps (xs @ ys) = sleeps xs @ sleeps ys"
  by (simp add: sleeps_def)

lemma snapshots_append [simp]: "snapshots (xs @ ys) = snapshots xs @ snapshots ys"
  by (simp add: snapshots_def)

lemma generates_simps [simp]:
  "generates [] = []" "generates (Generate a # es) = a # generates es"
  "generates (Stored j # es) = generates es" "generates (Sleep d # es) = generates es"
  by (simp_all add: generates_def)

lemma sleeps_simps [simp]:
  "sleeps [] = []" "sleeps (Generate a # es) = sleeps es"
  "sleeps (Stored j # es) = sleeps es" "sleeps (Sleep d # es) = d # sleeps es"
  by (simp_all add: sleeps_def)

lemma snapshots_simps [simp]:
  "snapshots [] = []" "snapshots (Generate a # es) = snapshots es"
  "snapshots (Stored j # es) = j # snapshots es" "snapshots (Sleep d # es) = snapshots es"
  by (simp_all add: snapshots_def)

lemma issubclass_simps [simp]:
  "issubclass c ServerError \<longleftrightarrow> c = ServerError"
  "issubclass c RuntimeError \<longleftrightarrow> c = RuntimeError"
  "issubclass c JSONDecodeError \<longleftrightarrow> c = JSONDecodeError"
  "issubclass c ValidationError \<longleftrightarrow> c = ValidationError"
  "issubclass c ValueError \<longleftrightarrow> c = ValueError \<or> c = JSONDecodeError \<or> c = ValidationError"
  by (auto simp: issubclass_def)

text \<open>One iteration, by what the awaited call did.\<close>

lemma attempt_loop_retry:
  assumes "outcome (env a) = Inl exc" "transient exc" "a < max_attempts"
  shows "attempt_loop env (a # rest) job_id job jobs =
           (let job1 = running job a (started_at (env a));
                job2 = job1\<lparr>status := PENDING,
                            error := Some (''Transient Gemini error (status=''
                                      @ str_status_code (resolve_status_code exc) @ ''). Retrying in ''
                                      @ format_1f (backoff_delay a) @ ''s.''),
                            updated_at := finished_at (env a)\<rparr>;
                r = attempt_loop env rest job_id job2 (jobs(job_id \<mapsto> job2))
            in (fst r, [Stored job1, Generate a, Stored job2, Sleep (backoff_delay a)] @ snd r))"
  using assms by (auto simp: transient_def running_def Let_def split: prod.splits)

lemma attempt_loop_final:
  assumes "\<not> (\<exists>exc. outcome (env a) = Inl exc \<and> transient exc \<and> a < max_attempts)"
  shows "\<exists>job2. attempt_loop env (a # rest) job_id job jobs =
           (jobs(job_id \<mapsto> job2),
            [Stored (running job a (started_at (env a))), Generate a, Stored job2])
           \<and> attempts job2 = a \<and> (status job2 = SUCCEEDED \<or> status job2 = FAILED)"
  using assms
  by (cases "outcome (env a)") (auto simp: transient_def running_def Let_def split: prod.splits)

lemma attempt_loop_failure:
  assumes "outcome (env a) = Inl exc" "\<not> transient exc"
  shows "attempt_loop env (a # rest) job_id job jobs =
           (let job1 = running job a (started_at (env a));
                job2 = job1\<lparr>status := FAILED, error := Some (failure_text exc),
                            updated_at := finished_at (env a)\<rparr>
            in (jobs(job_id \<mapsto> job2), [Stored job1, Generate a, Stored job2]))"
  using assms by (auto simp: transient_def running_def failure_text_def Let_def)

lemma attempt_loop_success:
  assumes "outcome (env a) = Inr result"
  shows "attempt_loop env (a # rest) job_id job jobs =
           (let job1 = running job a (started_at (env a));
                job2 = job1\<lparr>content := Some (result_content result),
                            metadata := result_metadata result,
                            status := SUCCEEDED, updated_at := finished_at (env a)\<rparr>
            in (jobs(job_id \<mapsto> job2), [Stored job1, Generate a, Stored job2]))"
  using assms by (simp add: running_def Let_def)

lemma attempt_loop_retry_ex:
  assumes "outcome (env a) = Inl exc" "transient exc" "a < max_attempts"
  shows "\<exists>job2. attempts job2 = a \<and> status job2 = PENDING \<and>
           attempt_loop env (a # rest) job_id job jobs =
             (fst (attempt_loop env rest job_id job2 (jobs(job_id \<mapsto> job2))),
              [Stored (running job a (started_at (env a))), Generate a, Stored job2,
               Sleep (backoff_delay a)]
              @ snd (attempt_loop env rest job_id job2 (jobs(job_id \<mapsto> job2))))"
  using attempt_loop_retry[of env a exc rest job_id job jobs, OF assms]
  by (simp add: Let_def running_def)

declare attempt_loop.simps(2) [simp del]

lemma attempt_loop_cases:
  obtains (retry) exc where "outcome (env a) = Inl exc" "transient exc" "a < max_attempts"
  | (final) "\<not> (\<exists>exc. outcome (env a) = Inl exc \<and> transient exc \<and> a < max_attempts)"
  by blast

lemma attempt_loop_generates_prefix:
  "\<exists>n. generates (snd (attempt_loop env as job_id job jobs)) = take n as"
proof (induction as arbitrary: job jobs)
  case Nil
  show ?case by simp
next
  case (Cons a as)
  show ?case
  proof (cases rule: attempt_loop_cases[of env a])
    case (retry exc)
    obtain job2 where step: "attempt_loop env (a # as) job_id job jobs =
             (fst (attempt_loop env as job_id job2 (jobs(job_id \<mapsto> job2))),
              [Stored (running job a (started_at (env a))), Generate a, Stored job2,
               Sleep (backoff_delay a)]
              @ snd (attempt_loop env as job_id job2 (jobs(job_id \<mapsto> job2))))"
      using attempt_loop_retry_ex[of env a exc as job_id job jobs, OF retry] by blast
    obtain n where "generates (snd (attempt_loop env as job_id job2 (jobs(job_id \<mapsto> job2)))) = take n as"
      using Cons.IH by blast
    then have "generates (snd (attempt_loop env (a # as) job_id job jobs)) = take (Suc n) (a # as)"
      by (simp add: step)
    then show ?thesis by blast
  next
    case final
    obtain job2 where "attempt_loop env (a # as) job_id job jobs =
        (jobs(job_id \<mapsto> job2), [Stored (running job a (started_at (env a))), Generate a, Stored job2])"
      using attempt_loop_final[of env a as job_id job jobs, OF final] by blast
    then have "generates (snd (attempt_loop env (a # as) job_id job jobs)) = take (Suc 0) (a # as)"
      by simp
    then show ?thesis by blast
  qed
qed

lemma attempt_loop_snapshots:
  "\<forall>j \<in> set (snapshots (snd (attempt_loop env as job_id job jobs))). attempts j \<in> set as"
proof (induction as arbitrary: job jobs)
  case Nil
  show ?case by simp
next
  case (Cons a as)
  show ?case
  proof (cases rule: attempt_loop_cases[of env a])
    case (retry exc)
    obtain job2 where step: "attempts job2 = a" "attempt_loop env (a # as) job_id job jobs =
             (fst (attempt_loop env as job_id job2 (jobs(job_id \<mapsto> job2))),
              [Stored (running job a (started_at (env a))), Generate a, Stored job2,
               Sleep (backoff_delay a)]
              @ snd (attempt_loop env as job_id job2 (jobs(job_id \<mapsto> job2))))"
      using attempt_loop_retry_ex[of env a exc as job_id job jobs, OF retry] by blast
    have ih: "\<forall>j \<in> set (snapshots (snd (attempt_loop env as job_id job2 (jobs(job_id \<mapsto> job2))))).
                attempts j \<in> set as"
      by (rule Cons.IH)
    show ?thesis
      unfolding step using ih step(1) by (simp add: running_def)
  next
    case final
    obtain job2 where "attempt_loop env (a # as) job_id job jobs =
        (jobs(job_id \<mapsto> job2), [Stored (running job a (started_at (env a))), Generate a, Stored job2])"
        "attempts job2 = a"
      using attempt_loop_final[of env a as job_id job jobs, OF final] by blast
    then show ?thesis by (simp add: running_def)
  qed
qed

lemma attempt_loop_last_snapshot:
  "as \<noteq> [] \<Longrightarrow>
     snapshots (snd (attempt_loop env as job_id job jobs)) \<noteq> [] \<and>
     fst (attempt_loop env as job_id job jobs) job_id =
       Some (last (snapshots (snd (attempt_loop env as job_id job jobs))))"
proof (induction as arbitrary: job jobs)
  case Nil
  then show ?case by simp
next
  case (Cons a as)
  show ?case
  proof (cases rule: attempt_loop_cases[of env a])
    case (retry exc)
    obtain job2 where step: "attempt_loop env (a # as) job_id job jobs =
             (fst (attempt_loop env as job_id job2 (jobs(job_id \<mapsto> job2))),
              [Stored (running job a (started_at (env a))), Generate a, Stored job2,
               Sleep (backoff_delay a)]
              @ snd (attempt_loop env as job_id job2 (jobs(job_id \<mapsto> job2))))"
      using attempt_loop_retry_ex[of env a exc as job_id job jobs, OF retry] by blast
    show ?thesis
    proof (cases "as = []")
      case True
      show ?thesis unfolding step by (simp add: True)
    next
      case False
      have "snapshots (snd (attempt_loop env as job_id job2 (jobs(job_id \<mapsto> job2)))) \<noteq> [] \<and>
            fst (attempt_loop env as job_id job2 (jobs(job_id \<mapsto> job2))) job_id =
              Some (last (snapshots (snd (attempt_loop env as job_id job2 (jobs(job_id \<mapsto> job2))))))"
        using False by (rule Cons.IH)
      then show ?thesis unfolding step by simp
    qed
  next
    case final
    obtain job2 where "attempt_loop env (a # as) job_id job jobs =
        (jobs(job_id \<mapsto> job2), [Stored (running job a (started_at (env a))), Generate a, Stored job2])"
      using attempt_loop_final[of env a as job_id job jobs, OF final] by blast
    then show ?thesis by simp
  qed
qed

lemma upto_1_3: "[1..max_attempts] = [1, 2, 3]"
  by (simp add: max_attempts_def upto_rec1)

text \<open>
  Claim C2. Whatever the awaited generation does, a run of the job calls it at most
  three times, and every state of the job that the run writes to the store has an
  attempt count between 1 and 3; the store ends with the last state written; a job
  created by \<open>visualize\<close> starts with the count 0.
\<close>

theorem retry_bound:
  fixes env job_id jobs
  defines "r \<equiv> run_visualization_job env job_id jobs"
  shows "length (generates (snd r)) \<le> 3
       \<and> (\<forall>j \<in> set (snapshots (snd r)). 1 \<le> attempts j \<and> attempts j \<le> 3)
       \<and> (jobs job_id \<noteq> None \<longrightarrow> fst r job_id = Some (last (snapshots (snd r))))
       \<and> (\<forall>request new_id now jobs0 resp t jobs1.
            visualize request new_id now jobs0 = (Inr (resp, t), jobs1) \<longrightarrow>
            (\<exists>j. jobs1 (task_job_id t) = Some j \<and> attempts j = 0))"
proof (intro conjI)
  show "length (generates (snd r)) \<le> 3"
  proof (cases "jobs job_id")
    case None
    then show ?thesis by (simp add: r_def run_visualization_job_def)
  next
    case (Some job)
    obtain n where "generates (snd (attempt_loop env [1, 2, 3] job_id job jobs)) = take n [1, 2, 3]"
      using attempt_loop_generates_prefix by blast
    then show ?thesis using Some by (simp add: r_def run_visualization_job_def upto_1_3)
  qed
  show "\<forall>j \<in> set (snapshots (snd r)). 1 \<le> attempts j \<and> attempts j \<le> 3"
  proof (cases "jobs job_id")
    case None
    then show ?thesis by (simp add: r_def run_visualization_job_def)
  next
    case (Some job)
    have "\<forall>j \<in> set (snapshots (snd (attempt_loop env [1, 2, 3] job_id job jobs))). attempts j \<in> set [1, 2, 3]"
      by (rule attempt_loop_snapshots)
    then show ?thesis using Some by (auto simp: r_def run_visualization_job_def upto_1_3)
  qed
  show "jobs job_id \<noteq> None \<longrightarrow> fst r job_id = Some (last (snapshots (snd r)))"
    using attempt_loop_last_snapshot[of "[1, 2, 3]" env job_id]
    by (auto simp: r_def run_visualization_job_def upto_1_3)
  show "\<forall>request new_id now jobs0 resp t jobs1.
            visualize request new_id now jobs0 = (Inr (resp, t), jobs1) \<longrightarrow>
            (\<exists>j. jobs1 (task_job_id t) = Some j \<and> attempts j = 0)"
    by (auto simp: visualize_def Let_def split: if_splits)
qed


lemma attempt_loop_fails:
  assumes "distinct as"
      and "k \<in> set (generates (snd (attempt_loop env as job_id job jobs)))"
      and "outcome (env k) = Inl exc" and "\<not> transient exc"
  shows "\<exists>j. fst (attempt_loop env as job_id job jobs) job_id = Some j
            \<and> status j = FAILED \<and> attempts j = k \<and> error j = Some (failure_text exc)
            \<and> generates (snd (attempt_loop env as job_id job jobs))
                = takeWhile (\<lambda>a. a \<noteq> k) as @ [k]"
  using assms(1,2)
proof (induction as arbitrary: job jobs)
  case Nil
  then show ?case by simp
next
  case (Cons a as)
  show ?case
  proof (cases "a = k")
    case True
    show ?thesis
      using attempt_loop_failure[of env k exc as job_id job jobs, OF assms(3,4)]
      by (simp add: True Let_def running_def)
  next
    case False
    show ?thesis
    proof (cases rule: attempt_loop_cases[of env a])
      case (retry exc')
      obtain job2 where step: "attempt_loop env (a # as) job_id job jobs =
             (fst (attempt_loop env as job_id job2 (jobs(job_id \<mapsto> job2))),
              [Stored (running job a (started_at (env a))), Generate a, Stored job2,
               Sleep (backoff_delay a)]
              @ snd (attempt_loop env as job_id job2 (jobs(job_id \<mapsto> job2))))"
        using attempt_loop_retry_ex[of env a exc' as job_id job jobs, OF retry] by blast
      have k: "k \<in> set (generates (snd (attempt_loop env as job_id job2 (jobs(job_id \<mapsto> job2)))))"
        using Cons.prems(2) False unfolding step by simp
      have d: "distinct as" using Cons.prems(1) by simp
      obtain j where j: "fst (attempt_loop env as job_id job2 (jobs(job_id \<mapsto> job2))) job_id = Some j"
          "status j = FAILED" "attempts j = k" "error j = Some (failure_text exc)"
          "generates (snd (attempt_loop env as job_id job2 (jobs(job_id \<mapsto> job2))))
             = takeWhile (\<lambda>a. a \<noteq> k) as @ [k]"
        using Cons.IH[OF d k] by blast
      show ?thesis
        unfolding step using j False by simp
    next
      case final
      obtain job2 where "attempt_loop env (a # as) job_id job jobs =
          (jobs(job_id \<mapsto> job2), [Stored (running job a (started_at (env a))), Generate a, Stored job2])"
        using attempt_loop_final[of env a as job_id job jobs, OF final] by blast
      then show ?thesis using Cons.prems(2) False by simp
    qed
  qed
qed

text \<open>
  Claim C3. When attempt \<open>k\<close> of a job is made and the generation raises an error that
  is not transient (a \<open>ValueError\<close> or \<open>RuntimeError\<close> from the strategy, a server error
  with another status, or anything else), the job ends \<open>FAILED\<close> with the attempt count
  \<open>k\<close> and the message of that error, and the calls of the run are exactly the
  attempts 1 to \<open>k\<close>: the generation is not called again.
\<close>

theorem non_transient_failure_is_final:
  assumes "k \<in> set (generates (snd (run_visualization_job env job_id jobs)))"
      and "outcome (env k) = Inl exc" and "\<not> transient exc"
  shows "\<exists>j. fst (run_visualization_job env job_id jobs) job_id = Some j
            \<and> status j = FAILED \<and> attempts j = k \<and> error j = Some (failure_text exc)
            \<and> generates (snd (run_visualization_job env job_id jobs)) = [1..k]"
proof (cases "jobs job_id")
  case None
  then show ?thesis using assms(1) by (simp add: run_visualization_job_def)
next
  case (Some job)
  have run: "run_visualization_job env job_id jobs = attempt_loop env [1, 2, 3] job_id job jobs"
    using Some by (simp add: run_visualization_job_def upto_1_3)
  obtain n where "generates (snd (attempt_loop env [1, 2, 3] job_id job jobs)) = take n [1, 2, 3]"
    using attempt_loop_generates_prefix by blast
  then have "k \<in> set [1, 2, 3]" using assms(1) unfolding run by (auto dest: in_set_takeD)
  then have k: "k = 1 \<or> k = 2 \<or> k = 3" by simp
  have tw: "takeWhile (\<lambda>a. a \<noteq> k) [1, 2, 3] @ [k] = [1..k]"
    using k by (auto simp: upto_rec1)
  have "distinct [1, 2, 3 :: int]" by simp
  from attempt_loop_fails[OF this assms(1)[unfolded run] assms(2,3)]
  show ?thesis unfolding run tw .
qed

lemma attempt_loop_sleeps:
  "\<exists>n. sleeps (snd (attempt_loop env as job_id job jobs)) = map backoff_delay (take n as)
       \<and> (\<forall>a \<in> set (take n as). a < max_attempts)"
proof (induction as arbitrary: job jobs)
  case Nil
  show ?case by simp
next
  case (Cons a as)
  show ?case
  proof (cases rule: attempt_loop_cases[of env a])
    case (retry exc)
    obtain job2 where step: "attempt_loop env (a # as) job_id job jobs =
             (fst (attempt_loop env as job_id job2 (jobs(job_id \<mapsto> job2))),
              [Stored (running job a (started_at (env a))), Generate a, Stored job2,
               Sleep (backoff_delay a)]
              @ snd (attempt_loop env as job_id job2 (jobs(job_id \<mapsto> job2))))"
      using attempt_loop_retry_ex[of env a exc as job_id job jobs, OF retry] by blast
    obtain n where "sleeps (snd (attempt_loop env as job_id job2 (jobs(job_id \<mapsto> job2))))
                      = map backoff_delay (take n as)" "\<forall>a \<in> set (take n as). a < max_attempts"
      using Cons.IH by blast
    then have "sleeps (snd (attempt_loop env (a # as) job_id job jobs))
                 = map backoff_delay (take (Suc n) (a # as))
               \<and> (\<forall>a \<in> set (take (Suc n) (a # as)). a < max_attempts)"
      unfolding step using retry(3) by simp
    then show ?thesis by blast
  next
    case final
    obtain job2 where "attempt_loop env (a # as) job_id job jobs =
        (jobs(job_id \<mapsto> job2), [Stored (running job a (started_at (env a))), Generate a, Stored job2])"
      using attempt_loop_final[of env a as job_id job jobs, OF final] by blast
    then have "sleeps (snd (attempt_loop env (a # as) job_id job jobs))
                 = map backoff_delay (take 0 (a # as))
               \<and> (\<forall>a \<in> set (take 0 (a # as)). a < max_attempts)"
      by simp
    then show ?thesis by blast
  qed
qed

lemma run_sleeps:
  "sleeps (snd (run_visualization_job env job_id jobs)) \<in> {[], [3 / 2], [3 / 2, 3]}"
proof (cases "jobs job_id")
  case None
  then show ?thesis by (simp add: run_visualization_job_def)
next
  case (Some job)
  obtain n where n: "sleeps (snd (attempt_loop env [1, 2, 3] job_id job jobs))
                    = map backoff_delay (take n [1, 2, 3])"
                "\<forall>a \<in> set (take n [1, 2, 3]). a < max_attempts"
    using attempt_loop_sleeps by blast
  have "n = 0 \<or> n = 1 \<or> n = 2 \<or> n \<ge> 3" by arith
  then have "n = 0 \<or> n = 1 \<or> n = 2" using n(2) by (auto simp: max_attempts_def)
  then show ?thesis using n(1) Some
    by (auto simp: run_visualization_job_def upto_1_3 backoff_delay_def base_delay_seconds_def
          numeral_2_eq_2)
qed

text \<open>
  Claim C6. The \<open>k\<close>-th sleep of a run lasts the base delay times \<open>2 ^ (k - 1)\<close>, with
  the base 1.5 seconds: the sleeps of a run are a prefix of 1.5, 3.0, and they
  strictly increase.
\<close>

theorem backoff_delays:
  fixes env job_id jobs
  defines "ss \<equiv> sleeps (snd (run_visualization_job env job_id jobs))"
  shows "(\<forall>k. 1 \<le> k \<and> k \<le> length ss \<longrightarrow> ss ! (k - 1) = base_delay_seconds * 2 ^ (k - 1))
       \<and> base_delay_seconds = 3 / 2
       \<and> ss = take (length ss) [3 / 2, 3]
       \<and> sorted_wrt (<) ss"
proof -
  have "ss \<in> {[], [3 / 2], [3 / 2, 3]}" unfolding ss_def by (rule run_sleeps)
  then consider "ss = []" | "ss = [3 / 2]" | "ss = [3 / 2, 3]" by blast
  then show ?thesis
  proof cases
    case 1
    then show ?thesis by (simp add: base_delay_seconds_def)
  next
    case 2
    then show ?thesis by (simp add: base_delay_seconds_def)
  next
    case 3
    have "ss ! (k - 1) = base_delay_seconds * 2 ^ (k - 1)" if "1 \<le> k \<and> k \<le> length ss" for k
    proof -
      have "k = 1 \<or> k = 2" using that 3 by auto
      then show ?thesis using 3 by (auto simp: base_delay_seconds_def)
    qed
    then show ?thesis using 3 by (simp add: base_delay_seconds_def)
  qed
qed

subsection \<open>The properties on sample runs\<close>

lemma example_store_job:
  "example_store ''job-1'' =
     Some \<lparr>job_ident = ''job-1'', status = PENDING, visualization_type = ''flowchart'',
           content = None, metadata = [], error = None, created_at = 0, updated_at = 0,
           expires_at = 3600000000, attempts = 0\<rparr>"
  by code_simp

lemma always_overloaded_attempts:
  "map attempts (snapshots (snd (run_visualization_job always_overloaded ''job-1'' example_store)))
     = [1, 1, 2, 2, 3, 3]"
  by code_simp

lemma always_overloaded_generates:
  "generates (snd (run_visualization_job always_overloaded ''job-1'' example_store)) = [1, 2, 3]"
  by code_simp

lemma always_overloaded_sleeps:
  "sleeps (snd (run_visualization_job always_overloaded ''job-1'' example_store)) = [3 / 2, 3]"
  by code_simp

lemma always_overloaded_errors:
  "map error (snapshots (snd (run_visualization_job always_overloaded ''job-1'' example_store))) =
     [None,
      Some ''Transient Gemini error (status=503). Retrying in 1.5s.'',
      Some ''Transient Gemini error (status=503). Retrying in 1.5s.'',
      Some ''Transient Gemini error (status=503). Retrying in 3.0s.'',
      Some ''Transient Gemini error (status=503). Retrying in 3.0s.'',
      Some ''The Gemini model is still overloaded after multiple attempts. Please wait a bit and try again.'']"
  by code_simp

lemma overloaded_then_invalid_generates:
  "generates (snd (run_visualization_job overloaded_then_invalid ''job-1'' example_store)) = [1, 2]"
  by code_simp

lemma overloaded_then_invalid_outcome:
  "outcome (overloaded_then_invalid 2) = Inl (new_exception ValueError ''Visualization error: bad JSON'')"
  by (simp add: overloaded_then_invalid_def)

lemma not_transient_ValueError: "\<not> transient (new_exception ValueError msg)"
  by (simp add: transient_def new_exception_def)

theorem retry_bound_witness:
  "example_store ''job-1'' \<noteq> None
   \<and> map attempts (snapshots (snd (run_visualization_job always_overloaded ''job-1'' example_store)))
       = [1, 1, 2, 2, 3, 3]
   \<and> length (generates (snd (run_visualization_job always_overloaded ''job-1'' example_store))) \<le> 3
   \<and> fst (run_visualization_job always_overloaded ''job-1'' example_store) ''job-1''
       = Some (last (snapshots (snd (run_visualization_job always_overloaded ''job-1'' example_store))))"
  using retry_bound[of always_overloaded "''job-1''" example_store]
    always_overloaded_attempts example_store_job
  by simp

theorem non_transient_failure_is_final_witness:
  "2 \<in> set (generates (snd (run_visualization_job overloaded_then_invalid ''job-1'' example_store)))
   \<and> (\<exists>j. fst (run_visualization_job overloaded_then_invalid ''job-1'' example_store) ''job-1'' = Some j
          \<and> status j = FAILED \<and> attempts j = 2
          \<and> error j = Some ''Visualization error: bad JSON''
          \<and> generates (snd (run_visualization_job overloaded_then_invalid ''job-1'' example_store))
              = [1, 2])"
proof -
  have k: "2 \<in> set (generates (snd (run_visualization_job overloaded_then_invalid ''job-1'' example_store)))"
    by (simp add: overloaded_then_invalid_generates)
  have t: "failure_text (new_exception ValueError ''Visualization error: bad JSON'')
             = ''Visualization error: bad JSON''"
    by (simp add: failure_text_def new_exception_def)
  have u: "[1..2] = [1, 2 :: int]" by (simp add: upto_rec1)
  show ?thesis
    using non_transient_failure_is_final[OF k overloaded_then_invalid_outcome not_transient_ValueError] k
    by (simp only: t u)
qed

theorem backoff_delays_witness:
  "sleeps (snd (run_visualization_job always_overloaded ''job-1'' example_store)) = [3 / 2, 3]
   \<and> sleeps (snd (run_visualization_job always_overloaded ''job-1'' example_store)) ! (2 - 1)
       = base_delay_seconds * 2 ^ (2 - 1)
   \<and> sorted_wrt (<) (sleeps (snd (run_visualization_job always_overloaded ''job-1'' example_store)))"
proof -
  have "(1::nat) \<le> 2 \<and> 2 \<le> length (sleeps (snd (run_visualization_job always_overloaded ''job-1'' example_store)))"
    by (simp add: always_overloaded_sleeps)
  then show ?thesis
    using backoff_delays[of always_overloaded "''job-1''" example_store] always_overloaded_sleeps
    by blast
qed

section \<open>Properties of the mindmap renderer\<close>

lemma join_Cons: "join sep (x # xs) = x @ (if xs = [] then [] else sep @ join sep xs)"
  by (cases xs) simp_all

lemma join_eq_Nil: "\<forall>l \<in> set ls. l \<noteq> [] \<Longrightarrow> join sep ls = [] \<longleftrightarrow> ls = []"
  by (cases ls) (simp_all add: join_Cons)

lemma join_append:
  "join sep (xs @ ys) =
     (if xs = [] then join sep ys else if ys = [] then join sep xs
      else join sep xs @ sep @ join sep ys)"
  by (induction xs) (simp_all add: join_Cons)

lemma join_concat:
  "\<forall>xs \<in> set xss. \<forall>l \<in> set xs. l \<noteq> [] \<Longrightarrow>
     join sep (filter (\<lambda>s. s \<noteq> []) (map (join sep) xss)) = join sep (concat xss)"
proof (induction xss)
  case Nil
  show ?case by simp
next
  case (Cons xs xss)
  have ne: "\<forall>l \<in> set xs. l \<noteq> []" using Cons.prems by simp
  have ih: "join sep (filter (\<lambda>s. s \<noteq> []) (map (join sep) xss)) = join sep (concat xss)"
    using Cons by simp
  have cc: "\<forall>l \<in> set (concat xss). l \<noteq> []" using Cons.prems by auto
  have ff: "\<forall>l \<in> set (filter (\<lambda>s. s \<noteq> []) (map (join sep) xss)). l \<noteq> []" by simp
  show ?case
  proof (cases "xs = []")
    case True
    then show ?thesis using ih by simp
  next
    case False
    then have j: "join sep xs \<noteq> []" using join_eq_Nil[OF ne] by simp
    show ?thesis
    proof (cases "concat xss = []")
      case True
      have "join sep (concat xss) = []" by (simp only: True join.simps)
      then have "join sep (filter (\<lambda>s. s \<noteq> []) (map (join sep) xss)) = []" using ih by simp
      then have "filter (\<lambda>s. s \<noteq> []) (map (join sep) xss) = []" using join_eq_Nil[OF ff] by simp
      then have "filter (\<lambda>s. s \<noteq> []) (map (join sep) (xs # xss)) = [join sep xs]"
        using j by simp
      moreover have "concat (xs # xss) = xs" by (simp only: concat.simps True append_Nil2)
      ultimately show ?thesis by (simp only: join.simps)
    next
      case c: False
      then have "join sep (concat xss) \<noteq> []" using join_eq_Nil[OF cc] by simp
      then have F: "filter (\<lambda>s. s \<noteq> []) (map (join sep) xss) \<noteq> []" using ih by auto
      have "join sep (filter (\<lambda>s. s \<noteq> []) (map (join sep) (xs # xss)))
              = join sep (join sep xs # filter (\<lambda>s. s \<noteq> []) (map (join sep) xss))"
        using j by simp
      also have "\<dots> = join sep xs @ sep @ join sep (filter (\<lambda>s. s \<noteq> []) (map (join sep) xss))"
        using F by (simp only: join_Cons if_False)
      also have "\<dots> = join sep xs @ sep @ join sep (concat xss)"
        by (simp only: ih)
      also have "\<dots> = join sep (xs @ concat xss)"
        using False c by (simp only: join_append if_False)
      finally show ?thesis by (simp only: concat.simps)
    qed
  qed
qed

lemma join_Cons_concat:
  assumes "\<forall>xs \<in> set xss. \<forall>l \<in> set xs. l \<noteq> []"
  shows "join sep (x # filter (\<lambda>s. s \<noteq> []) (map (join sep) xss)) = join sep (x # concat xss)"
proof -
  let ?ys = "filter (\<lambda>s. s \<noteq> []) (map (join sep) xss)"
  have eq: "join sep ?ys = join sep (concat xss)" using assms by (rule join_concat)
  have "\<forall>l \<in> set ?ys. l \<noteq> []" by simp
  then have a: "join sep ?ys = [] \<longleftrightarrow> ?ys = []" by (rule join_eq_Nil)
  have "\<forall>l \<in> set (concat xss). l \<noteq> []" using assms by auto
  then have b: "join sep (concat xss) = [] \<longleftrightarrow> concat xss = []" by (rule join_eq_Nil)
  have "?ys = [] \<longleftrightarrow> concat xss = []" using a b eq by simp
  then show ?thesis using eq by (simp only: join_Cons) 
qed

lemma preorder_depth_ge: "\<forall>p \<in> set (preorder node d). d \<le> fst p"
proof (induction node d rule: preorder.induct)
  case (1 ttl chs depth)
  then show ?case by (cases chs) (auto, force)
qed

lemma heading_line_nonempty: "heading_line p \<noteq> []"
  by (simp add: heading_line_def)

lemma json_to_markdown_preorder:
  "json_to_markdown node limit depth =
     join ''\<newline>'' (map heading_line (filter (\<lambda>p. fst p < limit) (preorder node depth)))"
proof (induction node limit depth rule: json_to_markdown.induct)
  case (1 ttl chs limit current_depth)
  show ?case
  proof (cases "current_depth \<ge> limit")
    case True
    have "filter (\<lambda>p. fst p < limit) (preorder (MindmapNode ttl chs) current_depth) = []"
      using True preorder_depth_ge[of "MindmapNode ttl chs" current_depth]
      by (fastforce simp: filter_empty_conv)
    then show ?thesis using True by simp
  next
    case False
    let ?P = "\<lambda>p::int \<times> string. fst p < limit"
    let ?x = "replicate (nat (current_depth + 1)) CHR ''#'' @ '' '' @ ttl"
    have hx: "heading_line (current_depth, ttl) = ?x" by (simp add: heading_line_def)
    show ?thesis
    proof (cases chs)
      case None
      then show ?thesis using False hx by simp
    next
      case (Some cs)
      let ?xss = "map (\<lambda>child. map heading_line (filter ?P (preorder child (current_depth + 1)))) cs"
      have ih: "map (\<lambda>child. json_to_markdown child limit (current_depth + 1)) cs
                  = map (join ''\<newline>'') ?xss"
        using "1.IH"[OF False refl Some] by simp
      have ne: "\<forall>xs \<in> set ?xss. \<forall>l \<in> set xs. l \<noteq> []"
        by (auto simp: heading_line_nonempty)
      have cc: "map heading_line (filter ?P (concat (map (\<lambda>child. preorder child (current_depth + 1)) cs)))
                  = concat ?xss"
        by (simp add: filter_concat map_concat comp_def)
      have "json_to_markdown (MindmapNode ttl chs) limit current_depth
              = join ''\<newline>'' (?x # filter (\<lambda>s. s \<noteq> [])
                  (map (\<lambda>child. json_to_markdown child limit (current_depth + 1)) cs))"
        using False Some by simp
      also have "\<dots> = join ''\<newline>'' (?x # filter (\<lambda>s. s \<noteq> []) (map (join ''\<newline>'') ?xss))"
        by (simp only: ih)
      also have "\<dots> = join ''\<newline>'' (?x # concat ?xss)"
        using ne by (rule join_Cons_concat)
      also have "\<dots> = join ''\<newline>'' (map heading_line (filter ?P (preorder (MindmapNode ttl chs) current_depth)))"
        using False Some hx cc by simp
      finally show ?thesis .
    qed
  qed
qed


lemma heading_level_heading_line: "heading_level (heading_line p) = nat (fst p + 1)"
  by (simp add: heading_level_def heading_line_def takeWhile_append)

lemma count_nodes_preorder: "count_nodes node = int (length (preorder node depth))"
proof (induction node depth rule: preorder.induct)
  case (1 ttl chs depth)
  show ?case
  proof (cases chs)
    case None
    then show ?thesis by simp
  next
    case (Some cs)
    have "\<forall>child \<in> set cs. count_nodes child = int (length (preorder child (depth + 1)))"
      using "1.IH"[OF Some] by simp
    then have "sum_list (map count_nodes cs)
                 = int (length (concat (map (\<lambda>child. preorder child (depth + 1)) cs)))"
      by (induction cs) simp_all
    then show ?thesis using Some by simp
  qed
qed

lemma foldl_max_ge_init:
  "a \<le> foldl (\<lambda>m child. max m (f child)) (a :: int) cs"
proof (induction cs arbitrary: a)
  case Nil
  show ?case by simp
next
  case (Cons c cs)
  have "a \<le> max a (f c)" by simp
  also have "\<dots> \<le> foldl (\<lambda>m child. max m (f child)) (max a (f c)) cs" by (rule Cons.IH)
  finally show ?case by simp
qed

lemma foldl_max_ge_elem:
  "child \<in> set cs \<Longrightarrow> f child \<le> foldl (\<lambda>m child. max m (f child)) (a :: int) cs"
proof (induction cs arbitrary: a)
  case Nil
  then show ?case by simp
next
  case (Cons c cs)
  show ?case
  proof (cases "child = c")
    case True
    have "f c \<le> max a (f c)" by simp
    also have "\<dots> \<le> foldl (\<lambda>m child. max m (f child)) (max a (f c)) cs"
      by (rule foldl_max_ge_init)
    finally show ?thesis using True by simp
  next
    case False
    then show ?thesis using Cons by simp
  qed
qed

lemma foldl_max_cases:
  "foldl (\<lambda>m child. max m (f child)) (a :: int) cs = a
   \<or> (\<exists>child \<in> set cs. foldl (\<lambda>m child. max m (f child)) a cs = f child)"
proof (induction cs arbitrary: a)
  case Nil
  show ?case by simp
next
  case (Cons c cs)
  let ?R = "foldl (\<lambda>m child. max m (f child)) (max a (f c)) cs"
  have R: "foldl (\<lambda>m child. max m (f child)) a (c # cs) = ?R" by simp
  from Cons[of "max a (f c)"]
  consider "?R = max a (f c)" | child where "child \<in> set cs" "?R = f child" by blast
  then show ?case
  proof cases
    case 1
    have "max a (f c) = a \<or> max a (f c) = f c" by (simp add: max_def)
    then show ?thesis unfolding R using 1 by auto
  next
    case 2
    then show ?thesis unfolding R by auto
  qed
qed

lemma calculate_depth_ge: "0 \<le> c \<Longrightarrow> c \<le> calculate_depth node c"
proof (induction node c rule: calculate_depth.induct)
  case (1 ttl chs current_depth)
  show ?case
  proof (cases chs)
    case None
    then show ?thesis by simp
  next
    case (Some cs)
    show ?thesis
    proof (cases "cs = []")
      case True
      then show ?thesis using Some by simp
    next
      case False
      then obtain c0 where c0: "c0 \<in> set cs" by (cases cs) auto
      have "current_depth + 1 \<le> calculate_depth c0 (current_depth + 1)"
        using "1.IH"[OF Some False c0] "1.prems" by simp
      also have "\<dots> \<le> foldl (\<lambda>m child. max m (calculate_depth child (current_depth + 1))) 0 cs"
        using c0 by (rule foldl_max_ge_elem)
      finally show ?thesis using Some False by simp
    qed
  qed
qed

lemma calculate_depth_node:
  "0 \<le> c \<Longrightarrow> \<exists>p \<in> set (preorder node d). fst p - d = calculate_depth node c - c"
proof (induction node c arbitrary: d rule: calculate_depth.induct)
  case (1 ttl chs current_depth)
  show ?case
  proof (cases chs)
    case None
    then show ?thesis by simp
  next
    case (Some cs)
    show ?thesis
    proof (cases "cs = []")
      case True
      then show ?thesis using Some by simp
    next
      case False
      let ?f = "\<lambda>child. calculate_depth child (current_depth + 1)"
      let ?R = "foldl (\<lambda>m child. max m (?f child)) 0 cs"
      obtain c0 where c0: "c0 \<in> set cs" using False by (cases cs) auto
      have "current_depth + 1 \<le> ?f c0"
        using calculate_depth_ge[of "current_depth + 1" c0] "1.prems" by simp
      also have "\<dots> \<le> ?R" using c0 by (rule foldl_max_ge_elem)
      finally have pos: "0 < ?R" using "1.prems" by simp
      then obtain child where child: "child \<in> set cs" "?R = ?f child"
        using foldl_max_cases[of ?f 0 cs] by auto
      have "0 \<le> current_depth + 1" using "1.prems" by simp
      from "1.IH"[OF Some False child(1) this, of "d + 1"]
      obtain p where p: "p \<in> set (preorder child (d + 1))"
          "fst p - (d + 1) = ?f child - (current_depth + 1)"
        by blast
      have "p \<in> set (preorder (MindmapNode ttl chs) d)"
        using p(1) child(1) Some by auto
      moreover have "fst p - d = calculate_depth (MindmapNode ttl chs) current_depth - current_depth"
        using p(2) child(2) Some False by simp
      ultimately show ?thesis by blast
    qed
  qed
qed

lemma rendered_nodes_depths:
  "\<forall>p \<in> set (rendered_nodes node limit). 0 \<le> fst p \<and> fst p < limit"
  using preorder_depth_ge[of node 0] by (auto simp: rendered_nodes_def)

lemma json_to_markdown_rendered_nodes:
  "json_to_markdown node limit 0 = join ''\<newline>'' (map heading_line (rendered_nodes node limit))"
  by (simp add: json_to_markdown_preorder rendered_nodes_def)

lemma pruned_when_deeper:
  assumes "limit < calculate_depth node 1"
  shows "length (rendered_nodes node limit) < length (preorder node 0)"
proof -
  obtain p where p: "p \<in> set (preorder node 0)" "fst p - 0 = calculate_depth node 1 - 1"
    using calculate_depth_node[of 1 node 0] by auto
  then have "\<not> fst p < limit" using assms by simp
  then have "\<exists>p \<in> set (preorder node 0). \<not> fst p < limit" using p(1) by blast
  then obtain q where "q \<in> set (preorder node 0)" "\<not> fst q < limit" by blast
  then show ?thesis
    unfolding rendered_nodes_def by (rule length_filter_less)
qed

lemma mindmap_generate_parsed:
  "parse_mindmap be llm_output = Inr tree \<Longrightarrow>
     mindmap_generate be (Inr llm_output) options =
       (case mindmap_render tree options of
          Inr result \<Rightarrow> Inr result
        | Inl e \<Rightarrow> Inl (mindmap_except e))"
  by (simp add: mindmap_generate_def mindmap_try_def)

lemma mindmap_render_metadata:
  "mindmap_render tree options = Inr r \<Longrightarrow>
     result_content r = json_to_markdown tree (max_depth options) 0 \<and>
     result_metadata r =
       [(''total_nodes'', count_nodes tree),
        (''actual_depth'', calculate_depth tree 1),
        (''requested_max_depth'', max_depth options)]"
  by (auto simp: mindmap_render_def Let_def split: if_splits)

lemma calculate_depth_upper:
  "0 \<le> c \<Longrightarrow> \<forall>p \<in> set (preorder node d). fst p - d \<le> calculate_depth node c - c"
proof (induction node c arbitrary: d rule: calculate_depth.induct)
  case (1 ttl chs current_depth)
  have root: "0 \<le> calculate_depth (MindmapNode ttl chs) current_depth - current_depth"
    using calculate_depth_ge[OF "1.prems", of "MindmapNode ttl chs"] by simp
  show ?case
  proof (cases chs)
    case None
    then show ?thesis by simp
  next
    case (Some cs)
    show ?thesis
    proof (cases "cs = []")
      case True
      then show ?thesis using Some by simp
    next
      case False
      let ?f = "\<lambda>child. calculate_depth child (current_depth + 1)"
      let ?R = "foldl (\<lambda>m child. max m (?f child)) 0 cs"
      have R: "calculate_depth (MindmapNode ttl chs) current_depth = ?R"
        using Some False by simp
      have "fst p - d \<le> ?R - current_depth"
        if mem: "p \<in> set (preorder (MindmapNode ttl chs) d)" for p
      proof (cases "p = (d, ttl)")
        case True
        then show ?thesis using root R by simp
      next
        case ne: False
        then obtain child where child: "child \<in> set cs" "p \<in> set (preorder child (d + 1))"
          using mem Some by auto
        have "0 \<le> current_depth + 1" using "1.prems" by simp
        from "1.IH"[OF Some False child(1) this, of "d + 1"] child(2)
        have "fst p - (d + 1) \<le> ?f child - (current_depth + 1)" by blast
        moreover have "?f child \<le> ?R" using child(1) by (rule foldl_max_ge_elem)
        ultimately show ?thesis by simp
      qed
      then show ?thesis unfolding R by blast
    qed
  qed
qed

lemma calculate_depth_tree_levels: "calculate_depth tree 1 = tree_levels tree"
proof -
  obtain p where p: "p \<in> set (preorder tree 0)" "fst p - 0 = calculate_depth tree 1 - 1"
    using calculate_depth_node[of 1 tree 0] by auto
  have u: "\<forall>q \<in> set (preorder tree 0). fst q - 0 \<le> calculate_depth tree 1 - 1"
    using calculate_depth_upper[of 1 tree 0] by simp
  have "Max (set (map fst (preorder tree 0))) = calculate_depth tree 1 - 1"
  proof (rule Max_eqI)
    show "finite (set (map fst (preorder tree 0)))" by simp
    show "y \<le> calculate_depth tree 1 - 1" if "y \<in> set (map fst (preorder tree 0))" for y
      using that u by auto
    show "calculate_depth tree 1 - 1 \<in> set (map fst (preorder tree 0))"
      using p by force
  qed
  then show ?thesis by (simp add: tree_levels_def)
qed

lemma split_lines_nonempty: "split_lines s \<noteq> []"
  by (induction s) (auto split: list.splits)

lemma split_lines_no_linefeed: "CHR ''\<newline>'' \<notin> set l \<Longrightarrow> split_lines l = [l]"
  by (induction l) auto

lemma split_lines_append_linefeed:
  "CHR ''\<newline>'' \<notin> set l \<Longrightarrow> split_lines (l @ CHR ''\<newline>'' # s) = l # split_lines s"
  by (induction l) auto

lemma split_lines_join:
  "ls \<noteq> [] \<Longrightarrow> \<forall>l \<in> set ls. CHR ''\<newline>'' \<notin> set l \<Longrightarrow>
     split_lines (join ''\<newline>'' ls) = ls"
proof (induction ls)
  case Nil
  then show ?case by simp
next
  case (Cons l ls)
  show ?case
  proof (cases "ls = []")
    case True
    then show ?thesis using Cons.prems by (simp add: split_lines_no_linefeed)
  next
    case False
    then have "join ''\<newline>'' (l # ls) = l @ CHR ''\<newline>'' # join ''\<newline>'' ls"
      by (simp add: join_Cons)
    then show ?thesis
      using Cons False by (simp add: split_lines_append_linefeed)
  qed
qed

lemma heading_line_no_linefeed:
  "CHR ''\<newline>'' \<notin> set (snd p) \<Longrightarrow> CHR ''\<newline>'' \<notin> set (heading_line p)"
  by (auto simp: heading_line_def)

lemma rendered_nodes_root: "0 < limit \<Longrightarrow> rendered_nodes tree limit \<noteq> []"
  by (cases tree) (simp add: rendered_nodes_def)

lemma split_lines_rendering:
  assumes "0 < limit" and "\<forall>p \<in> set (preorder tree 0). CHR ''\<newline>'' \<notin> set (snd p)"
  shows "split_lines (json_to_markdown tree limit 0) = map heading_line (rendered_nodes tree limit)"
proof -
  have "\<forall>l \<in> set (map heading_line (rendered_nodes tree limit)). CHR ''\<newline>'' \<notin> set l"
    using assms(2) by (fastforce simp: rendered_nodes_def heading_line_def)
  moreover have "map heading_line (rendered_nodes tree limit) \<noteq> []"
    using rendered_nodes_root[OF assms(1)] by simp
  ultimately show ?thesis
    unfolding json_to_markdown_rendered_nodes by (rule split_lines_join[rotated])
qed

text \<open>
  Claim C8, as amended. For a parsed tree with six levels, rendered with
  \<open>max_depth = 3\<close>: the markdown is exactly the heading lines of the nodes at depths
  0, 1 and 2, in order, each of level 1 to 3, and some node of the tree is left out;
  when no title holds a line feed, these are all the lines of the markdown, so no
  line is a heading beyond level 3. \<open>_calculate_depth\<close> gives 6, the number of levels
  of the whole tree, and when \<open>generate\<close> returns, its metadata holds the node count
  of the whole tree and the depth 6.
\<close>

theorem depth_pruning:
  assumes "tree_levels tree = 6" and "max_depth options = 3"
  shows "json_to_markdown tree (max_depth options) 0
           = join ''\<newline>'' (map heading_line (rendered_nodes tree 3))
       \<and> (\<forall>p \<in> set (rendered_nodes tree 3).
            fst p < 3 \<and> 1 \<le> heading_level (heading_line p) \<and> heading_level (heading_line p) \<le> 3)
       \<and> ((\<forall>p \<in> set (preorder tree 0). CHR ''\<newline>'' \<notin> set (snd p)) \<longrightarrow>
            split_lines (json_to_markdown tree (max_depth options) 0)
              = map heading_line (rendered_nodes tree 3)
            \<and> (\<forall>l \<in> set (split_lines (json_to_markdown tree (max_depth options) 0)).
                  1 \<le> heading_level l \<and> heading_level l \<le> 3))
       \<and> length (rendered_nodes tree 3) < length (preorder tree 0)
       \<and> count_nodes tree = int (length (preorder tree 0))
       \<and> calculate_depth tree 1 = 6
       \<and> (\<forall>be llm_output r. parse_mindmap be llm_output = Inr tree \<longrightarrow>
              mindmap_generate be (Inr llm_output) options = Inr r \<longrightarrow>
              result_metadata r =
                [(''total_nodes'', count_nodes tree), (''actual_depth'', 6),
                 (''requested_max_depth'', 3)])"
proof -
  have depth: "calculate_depth tree 1 = 6"
    using assms(1) by (simp add: calculate_depth_tree_levels)
  have a: "json_to_markdown tree (max_depth options) 0
          = join ''\<newline>'' (map heading_line (rendered_nodes tree 3))"
    by (simp only: assms(2) json_to_markdown_rendered_nodes)
  have b: "\<forall>p \<in> set (rendered_nodes tree 3).
          fst p < 3 \<and> 1 \<le> heading_level (heading_line p) \<and> heading_level (heading_line p) \<le> 3"
    using rendered_nodes_depths[of tree 3] by (auto simp: heading_level_heading_line)
  have s: "split_lines (json_to_markdown tree (max_depth options) 0)
             = map heading_line (rendered_nodes tree 3)"
    if "\<forall>p \<in> set (preorder tree 0). CHR ''\<newline>'' \<notin> set (snd p)"
    using split_lines_rendering[of 3 tree] that by (simp add: assms(2))
  have l: "\<forall>l \<in> set (split_lines (json_to_markdown tree (max_depth options) 0)).
             1 \<le> heading_level l \<and> heading_level l \<le> 3"
    if "\<forall>p \<in> set (preorder tree 0). CHR ''\<newline>'' \<notin> set (snd p)"
    unfolding s[OF that] using b by auto
  have c: "length (rendered_nodes tree 3) < length (preorder tree 0)"
    using depth by (intro pruned_when_deeper) simp
  have d: "count_nodes tree = int (length (preorder tree 0))"
    by (rule count_nodes_preorder)
  have e: "result_metadata r =
             [(''total_nodes'', count_nodes tree), (''actual_depth'', 6),
              (''requested_max_depth'', 3)]"
    if p: "parse_mindmap be llm_output = Inr tree"
    and g: "mindmap_generate be (Inr llm_output) options = Inr r" for be llm_output r
  proof -
    have "mindmap_render tree options = Inr r"
      using g unfolding mindmap_generate_parsed[OF p] by (auto split: sum.splits)
    then show ?thesis
      using mindmap_render_metadata[of tree options r] assms(2) depth by simp
  qed
  show ?thesis using a b s l c d depth e by blast
qed


text \<open>
  Claim C10. With \<open>max_depth \<le> 0\<close> the renderer returns the empty string for every
  tree, \<open>validate_content\<close> rejects it, and \<open>generate\<close> raises whatever the provider
  answers.
\<close>

theorem non_positive_max_depth_fails:
  assumes "max_depth options \<le> 0"
  shows "json_to_markdown tree (max_depth options) 0 = []
       \<and> \<not> validate_content_mindmap (json_to_markdown tree (max_depth options) 0)
       \<and> (\<forall>be llm_output. parse_mindmap be llm_output = Inr tree \<longrightarrow>
            mindmap_generate be (Inr llm_output) options =
              Inl (new_exception RuntimeError
                     ''Mindmap generation failed: Generated mindmap markdown content is invalid.''))
       \<and> (\<forall>be reply. \<exists>e. mindmap_generate be reply options = Inl e)"
proof -
  have r: "json_to_markdown t (max_depth options) 0 = []" for t
    using assms by (cases t) simp
  have v: "\<not> validate_content_mindmap []"
    by (simp add: validate_content_mindmap_def)
  have m: "mindmap_render t options
             = Inl (new_exception ValueError ''Generated mindmap markdown content is invalid.'')" for t
    by (simp add: mindmap_render_def r v)
  have x: "mindmap_except (new_exception ValueError ''Generated mindmap markdown content is invalid.'')
             = new_exception RuntimeError
                 ''Mindmap generation failed: Generated mindmap markdown content is invalid.''"
    by (simp add: mindmap_except_def new_exception_def)
  have g: "\<exists>e. mindmap_generate be reply options = Inl e" for be reply
    by (simp add: mindmap_generate_def mindmap_try_def m split: sum.splits)
  show ?thesis
    using r[of tree] v g by (simp add: mindmap_generate_parsed m x)
qed

subsection \<open>The renderer on sample trees\<close>

lemma chain6_rendered: "json_to_markdown chain6 3 0 = ''# Topic\<newline>## Branch\<newline>### Detail''"
  by code_simp

lemma chain6_generate:
  "mindmap_generate example_backend (Inr ''{}'') \<lparr>complexity = ''balanced'', max_depth = 3, style = ''default''\<rparr>
     = Inr \<lparr>result_type = ''mindmap'',
            result_content = ''# Topic\<newline>## Branch\<newline>### Detail'',
            result_metadata = [(''total_nodes'', 6), (''actual_depth'', 6), (''requested_max_depth'', 3)]\<rparr>"
  by code_simp

lemma chain6_rendered_nodes:
  "rendered_nodes chain6 3 = [(0, ''Topic''), (1, ''Branch''), (2, ''Detail'')]"
  by code_simp



lemma chain6_levels: "tree_levels chain6 = 6"
  by code_simp

lemma chain6_lines:
  "split_lines (json_to_markdown chain6 3 0) = [''# Topic'', ''## Branch'', ''### Detail'']"
  by code_simp

lemma chain6_line_levels:
  "map heading_level (split_lines (json_to_markdown chain6 3 0)) = [1, 2, 3]"
  by code_simp

theorem depth_pruning_witness:
  "tree_levels chain6 = 6
   \<and> json_to_markdown chain6 3 0 = ''# Topic\<newline>## Branch\<newline>### Detail''
   \<and> split_lines (json_to_markdown chain6 3 0) = [''# Topic'', ''## Branch'', ''### Detail'']
   \<and> map heading_level (split_lines (json_to_markdown chain6 3 0)) = [1, 2, 3]
   \<and> length (rendered_nodes chain6 3) < length (preorder chain6 0)
   \<and> calculate_depth chain6 1 = 6
   \<and> (\<exists>r. mindmap_generate example_backend (Inr ''{}'')
              \<lparr>complexity = ''balanced'', max_depth = 3, style = ''default''\<rparr> = Inr r
          \<and> result_metadata r =
               [(''total_nodes'', count_nodes chain6), (''actual_depth'', 6),
                (''requested_max_depth'', 3)])"
proof -
  have o: "max_depth \<lparr>complexity = ''balanced'', max_depth = 3, style = ''default''\<rparr> = 3"
    by simp
  note th = depth_pruning[OF chain6_levels o]
  have p: "parse_mindmap example_backend ''{}'' = Inr chain6"
    by (simp add: example_backend_def)
  have c: "length (rendered_nodes chain6 3) < length (preorder chain6 0)"
    using th by blast
  have d: "calculate_depth chain6 1 = 6"
    using th by blast
  have m: "\<And>r. mindmap_generate example_backend (Inr ''{}'')
              \<lparr>complexity = ''balanced'', max_depth = 3, style = ''default''\<rparr> = Inr r \<Longrightarrow>
            result_metadata r =
               [(''total_nodes'', count_nodes chain6), (''actual_depth'', 6),
                (''requested_max_depth'', 3)]"
    using th p by blast
  have g: "\<exists>r. mindmap_generate example_backend (Inr ''{}'')
              \<lparr>complexity = ''balanced'', max_depth = 3, style = ''default''\<rparr> = Inr r
          \<and> result_metadata r =
               [(''total_nodes'', count_nodes chain6), (''actual_depth'', 6),
                (''requested_max_depth'', 3)]"
    using m[OF chain6_generate] chain6_generate by blast
  show ?thesis
    using chain6_levels chain6_rendered chain6_lines chain6_line_levels c d g by blast
qed

text \<open>
  The claim as it is worded fails on a tree with a line feed in a title: the text
  after the line feed is copied as it is and makes a line of level 6 in a markdown
  rendered with \<open>max_depth = 3\<close>.
\<close>

theorem depth_pruning_counterexample:
  "tree_levels linefeed_title_tree = 6
   \<and> json_to_markdown linefeed_title_tree 3 0
       = ''# Topic\<newline>###### Deep\<newline>## Branch\<newline>### Detail''
   \<and> split_lines (json_to_markdown linefeed_title_tree 3 0) ! 1 = ''###### Deep''
   \<and> heading_level (split_lines (json_to_markdown linefeed_title_tree 3 0) ! 1) = 6"
  by code_simp



theorem non_positive_max_depth_fails_witness:
  "max_depth \<lparr>complexity = ''balanced'', max_depth = 0, style = ''default''\<rparr> \<le> 0
   \<and> json_to_markdown chain6 0 0 = []
   \<and> mindmap_generate example_backend (Inr ''{}'')
        \<lparr>complexity = ''balanced'', max_depth = 0, style = ''default''\<rparr>
       = Inl (new_exception RuntimeError
                ''Mindmap generation failed: Generated mindmap markdown content is invalid.'')"
proof -
  have o: "max_depth \<lparr>complexity = ''balanced'', max_depth = 0, style = ''default''\<rparr> \<le> 0"
    by simp
  have p: "parse_mindmap example_backend ''{}'' = Inr chain6"
    by (simp add: example_backend_def)
  show ?thesis
    using non_positive_max_depth_fails[OF o, of chain6] p by simp
qed

section \<open>Properties of the registry and the endpoints\<close>

lemma map_of_None_iff_not_supported:
  "map_of strategies k = None \<longleftrightarrow> k \<notin> set (get_supported_types strategies)"
  by (simp add: get_supported_types_def map_of_eq_None_iff)

lemma map_of_Some_iff_supported:
  "(\<exists>cls. map_of strategies k = Some cls) \<longleftrightarrow> k \<in> set (get_supported_types strategies)"
  using map_of_None_iff_not_supported[of strategies k] by auto

text \<open>
  Claim C5, as amended. For every type name whose lower-cased form is not a
  supported type, \<open>create_strategy\<close> raises a \<open>ValueError\<close> and \<open>visualize\<close> answers 400,
  spawns no task and leaves the store as it was. For every type name whose
  lower-cased form is a supported type, whatever its letter case, \<open>create_strategy\<close>
  returns a strategy and \<open>visualize\<close> stores a pending job under the lower-cased type.
\<close>

theorem unsupported_type_rejected:
  "(py_lower type_name \<notin> set (get_supported_types visualization_factory) \<longrightarrow>
      (\<exists>e. create_strategy visualization_factory type_name = Inl e \<and> exc_class e = ValueError)
      \<and> (\<forall>request new_id now jobs. req_visualization_type request = type_name \<longrightarrow>
            (\<exists>h. visualize request new_id now jobs = (Inl h, jobs) \<and> http_status_code h = 400)))
   \<and> (py_lower type_name \<in> set (get_supported_types visualization_factory) \<longrightarrow>
      (\<exists>cls. create_strategy visualization_factory type_name = Inr cls)
      \<and> (\<forall>request new_id now jobs. req_visualization_type request = type_name \<longrightarrow>
            (\<exists>resp t job. visualize request new_id now jobs = (Inr (resp, t), jobs(new_id \<mapsto> job))
               \<and> created_job_id resp = new_id \<and> task_job_id t = new_id
               \<and> status job = PENDING \<and> attempts job = 0 \<and> error job = None
               \<and> visualization_type job = py_lower type_name)))"
proof -
  have a: "\<exists>e. create_strategy visualization_factory type_name = Inl e \<and> exc_class e = ValueError"
    if "py_lower type_name \<notin> set (get_supported_types visualization_factory)"
  proof -
    have "map_of visualization_factory (py_lower type_name) = None"
      using that by (simp add: map_of_None_iff_not_supported)
    then show ?thesis by (simp add: create_strategy_def new_exception_def)
  qed
  have b: "\<exists>h. visualize request new_id now jobs = (Inl h, jobs) \<and> http_status_code h = 400"
    if "py_lower type_name \<notin> set (get_supported_types visualization_factory)"
      and "req_visualization_type request = type_name" for request new_id now jobs
    using that by (simp add: visualize_def Let_def)
  have c: "\<exists>cls. create_strategy visualization_factory type_name = Inr cls"
    if sup: "py_lower type_name \<in> set (get_supported_types visualization_factory)"
  proof -
    obtain cls where "map_of visualization_factory (py_lower type_name) = Some cls"
      using sup map_of_Some_iff_supported[of visualization_factory "py_lower type_name"] by blast
    then show ?thesis by (simp add: create_strategy_def)
  qed
  have d: "\<exists>resp t job. visualize request new_id now jobs = (Inr (resp, t), jobs(new_id \<mapsto> job))
               \<and> created_job_id resp = new_id \<and> task_job_id t = new_id
               \<and> status job = PENDING \<and> attempts job = 0 \<and> error job = None
               \<and> visualization_type job = py_lower type_name"
    if "py_lower type_name \<in> set (get_supported_types visualization_factory)"
      and "req_visualization_type request = type_name" for request new_id now jobs
  proof -
    let ?job = "\<lparr>job_ident = new_id, status = PENDING,
                 visualization_type = py_lower type_name, content = None, metadata = [],
                 error = None, created_at = now, updated_at = now,
                 expires_at = now + 3600 * 1000000, attempts = 0\<rparr>"
    let ?resp = "\<lparr>created_job_id = new_id, created_status = PENDING\<rparr>"
    let ?t = "\<lparr>task_job_id = new_id, task_question = req_question request,
               task_visualization_type = type_name, task_options = req_options request\<rparr>"
    have v: "visualize request new_id now jobs = (Inr (?resp, ?t), jobs(new_id \<mapsto> ?job))"
      using that by (simp add: visualize_def Let_def)
    have "visualize request new_id now jobs = (Inr (?resp, ?t), jobs(new_id \<mapsto> ?job))
            \<and> created_job_id ?resp = new_id \<and> task_job_id ?t = new_id
            \<and> status ?job = PENDING \<and> attempts ?job = 0 \<and> error ?job = None
            \<and> visualization_type ?job = py_lower type_name"
      using v by simp
    then show ?thesis by blast
  qed
  show ?thesis using a b c d by blast
qed

theorem unsupported_type_rejected_witness:
  "py_lower ''PieChart'' \<notin> set (get_supported_types visualization_factory)
   \<and> (\<exists>e. create_strategy visualization_factory ''PieChart'' = Inl e \<and> exc_class e = ValueError)
   \<and> (\<exists>h. visualize (example_request\<lparr>req_visualization_type := ''PieChart''\<rparr>) ''job-2'' 0 example_store
            = (Inl h, example_store) \<and> http_status_code h = 400)
   \<and> py_lower ''MindMap'' \<in> set (get_supported_types visualization_factory)
   \<and> (\<exists>cls. create_strategy visualization_factory ''MindMap'' = Inr cls)
   \<and> (\<exists>resp t job. visualize (example_request\<lparr>req_visualization_type := ''MindMap''\<rparr>) ''job-2'' 0
                       example_store = (Inr (resp, t), example_store(''job-2'' \<mapsto> job))
          \<and> status job = PENDING \<and> visualization_type job = py_lower ''MindMap'')"
proof -
  have n: "py_lower ''PieChart'' \<notin> set (get_supported_types visualization_factory)"
    by code_simp
  have y: "py_lower ''MindMap'' \<in> set (get_supported_types visualization_factory)"
    by code_simp
  have r: "req_visualization_type (example_request\<lparr>req_visualization_type := ''PieChart''\<rparr>) = ''PieChart''"
    by simp
  have q: "req_visualization_type (example_request\<lparr>req_visualization_type := ''MindMap''\<rparr>) = ''MindMap''"
    by simp
  have rej: "(\<exists>e. create_strategy visualization_factory ''PieChart'' = Inl e \<and> exc_class e = ValueError)
      \<and> (\<exists>h. visualize (example_request\<lparr>req_visualization_type := ''PieChart''\<rparr>) ''job-2'' 0 example_store
            = (Inl h, example_store) \<and> http_status_code h = 400)"
    using unsupported_type_rejected[of "''PieChart''"] n r by blast
  have acc: "(\<exists>cls. create_strategy visualization_factory ''MindMap'' = Inr cls)
      \<and> (\<exists>resp t job. visualize (example_request\<lparr>req_visualization_type := ''MindMap''\<rparr>) ''job-2'' 0
                       example_store = (Inr (resp, t), example_store(''job-2'' \<mapsto> job))
          \<and> status job = PENDING \<and> visualization_type job = py_lower ''MindMap'')"
    using unsupported_type_rejected[of "''MindMap''"] y q by blast
  show ?thesis using n y rej acc by blast
qed

text \<open>
  The claim as it is worded fails on a name that differs from a supported type only
  in case: it is not in the supported set, yet the registry creates the strategy
  and \<open>visualize\<close> stores a job.
\<close>

theorem unsupported_type_counterexample:
  "''Flowchart'' \<notin> set (get_supported_types visualization_factory)
   \<and> create_strategy visualization_factory ''Flowchart'' = Inr FlowchartStrategy
   \<and> req_visualization_type example_request = ''Flowchart''
   \<and> snd (visualize example_request ''job-1'' 0 Map.empty) ''job-1'' \<noteq> None"
  by code_simp

text \<open>
  Claim C7. Polling a job that is in the store and whose expiry time has passed
  answers 404 and removes the job; a second poll answers 404 again and leaves the
  store without it; and a later poll answers 404 and removes it again even if the
  background task has written the job back in between.
\<close>

theorem expired_job_not_found:
  assumes "jobs job_id = Some job" and "expires_at job < now"
  shows "(\<exists>h. get_visualization_job job_id now jobs = (Inl h, jobs(job_id := None))
              \<and> http_status_code h = 404)
       \<and> (jobs(job_id := None)) job_id = None
       \<and> (\<forall>now'. \<exists>h. get_visualization_job job_id now' (jobs(job_id := None))
                        = (Inl h, jobs(job_id := None)) \<and> http_status_code h = 404)
       \<and> (\<forall>now' job'. now \<le> now' \<and> expires_at job' = expires_at job \<longrightarrow>
            (\<exists>h. get_visualization_job job_id now' (jobs(job_id \<mapsto> job'))
                   = (Inl h, jobs(job_id := None)) \<and> http_status_code h = 404))"
  using assms by (simp add: get_visualization_job_def)

theorem expired_job_not_found_witness:
  "example_store ''job-1'' \<noteq> None
   \<and> (\<exists>h. get_visualization_job ''job-1'' 3600000001 example_store
             = (Inl h, example_store(''job-1'' := None)) \<and> http_status_code h = 404)
   \<and> (\<exists>h. get_visualization_job ''job-1'' 3600000002 (example_store(''job-1'' := None))
             = (Inl h, example_store(''job-1'' := None)) \<and> http_status_code h = 404)"
proof -
  have e: "expires_at \<lparr>job_ident = ''job-1'', status = PENDING, visualization_type = ''flowchart'',
           content = None, metadata = [], error = None, created_at = 0, updated_at = 0,
           expires_at = 3600000000, attempts = 0\<rparr> < 3600000001"
    by simp
  show ?thesis
    using expired_job_not_found[where jobs = example_store and job_id = "''job-1''"
            and now = 3600000001, OF example_store_job e] example_store_job
    by simp
qed

section \<open>Properties of the whole program\<close>

lemma create_strategy_raises:
  "create_strategy strategies type_name = Inl e \<Longrightarrow> exc_class e = ValueError \<and> exc_str e \<noteq> []"
  by (auto simp: create_strategy_def new_exception_def split: option.splits)

lemma flowchart_generate_raises:
  "flowchart_generate be reply options = Inl e \<Longrightarrow>
     (exc_class e = ValueError \<or> exc_class e = RuntimeError) \<and> exc_str e \<noteq> []"
  by (auto simp: flowchart_generate_def flowchart_except_def new_exception_def
           split: sum.splits if_splits)

lemma mindmap_generate_raises:
  "mindmap_generate be reply options = Inl e \<Longrightarrow>
     (exc_class e = ValueError \<or> exc_class e = RuntimeError) \<and> exc_str e \<noteq> []"
  by (auto simp: mindmap_generate_def mindmap_except_def new_exception_def
           split: sum.splits if_splits)

text \<open>
  Whatever the provider does, \<open>generate_visualization\<close> raises only \<open>ValueError\<close> or
  \<open>RuntimeError\<close>, with a non-empty message: a \<open>ServerError\<close> of the provider never
  leaves it.
\<close>

lemma generate_visualization_raises:
  assumes "generate_visualization be reply vtype options = Inl e"
  shows "(exc_class e = ValueError \<or> exc_class e = RuntimeError) \<and> exc_str e \<noteq> []
         \<and> \<not> transient e \<and> failure_text e = exc_str e"
proof -
  have "(exc_class e = ValueError \<or> exc_class e = RuntimeError) \<and> exc_str e \<noteq> []"
    using assms
    by (auto simp: generate_visualization_def new_exception_def split: sum.splits if_splits)
  then show ?thesis by (auto simp: transient_def failure_text_def)
qed

lemma generate_visualization_provider_error:
  "\<exists>e. generate_visualization be (Inl exc) vtype options = Inl e"
  by (auto simp: generate_visualization_def strategy_generate_def flowchart_generate_def
        flowchart_try_def mindmap_generate_def mindmap_try_def
        split: sum.splits strategy_class.splits)

lemma upto_max_attempts: "[1..max_attempts] = 1 # [2, 3]"
  by (simp add: max_attempts_def upto_rec1)

text \<open>The program makes one attempt per job: it succeeds or fails on the first.\<close>

lemma run_task_single_attempt:
  assumes "jobs (task_job_id t) = Some job"
  shows "\<exists>job2. run_task be world t jobs =
             (jobs(task_job_id t \<mapsto> job2),
              [Stored (running job 1 (started_at (world 1))), Generate 1, Stored job2])
           \<and> attempts job2 = 1
           \<and> ((\<exists>result. generate_visualization be (outcome (world 1))
                           (task_visualization_type t) (task_options t) = Inr result
                  \<and> status job2 = SUCCEEDED \<and> error job2 = error job)
               \<or> (\<exists>e. generate_visualization be (outcome (world 1))
                           (task_visualization_type t) (task_options t) = Inl e
                  \<and> status job2 = FAILED \<and> error job2 = Some (exc_str e) \<and> exc_str e \<noteq> []))"
proof -
  let ?env = "program_env be world t"
  have run: "run_task be world t jobs = attempt_loop ?env (1 # [2, 3]) (task_job_id t) job jobs"
    using assms by (simp add: run_task_def run_visualization_job_def upto_max_attempts)
  have s: "started_at (?env 1) = started_at (world 1)"
    by (simp add: program_env_def)
  show ?thesis
  proof (cases "generate_visualization be (outcome (world 1))
                  (task_visualization_type t) (task_options t)")
    case (Inr result)
    then have o: "outcome (?env 1) = Inr result" by (simp add: program_env_def)
    show ?thesis
      unfolding run attempt_loop_success[of ?env 1 result, OF o] s
      using Inr by (simp add: Let_def running_def)
  next
    case (Inl e)
    then have o: "outcome (?env 1) = Inl e" by (simp add: program_env_def)
    have e: "\<not> transient e" "failure_text e = exc_str e" "exc_str e \<noteq> []"
      using generate_visualization_raises[OF Inl] by simp_all
    show ?thesis
      unfolding run attempt_loop_failure[of ?env 1 e, OF o e(1)] s
      using Inl e by (simp add: Let_def running_def)
  qed
qed

lemma run_task_never_retries:
  "sleeps (snd (run_task be world t jobs)) = []
   \<and> length (generates (snd (run_task be world t jobs))) \<le> 1"
proof (cases "jobs (task_job_id t)")
  case None
  then show ?thesis by (simp add: run_task_def run_visualization_job_def)
next
  case (Some job)
  from run_task_single_attempt[where jobs = jobs and t = t and job = job and be = be
         and world = world, OF this]
  obtain job2 where "run_task be world t jobs =
             (jobs(task_job_id t \<mapsto> job2),
              [Stored (running job 1 (started_at (world 1))), Generate 1, Stored job2])"
    by blast
  then show ?thesis by simp
qed

text \<open>
  Claim C1 on the program. The provider answers the first call of a flowchart job
  with a 503 \<open>ServerError\<close>: the strategy and \<open>generate_visualization\<close> raise it again as
  a \<open>RuntimeError\<close>, and the job ends \<open>FAILED\<close> after one call, without going back to
  \<open>PENDING\<close> and without a sleep.
\<close>

theorem transient_error_not_retried:
  "generates (snd (run_task example_backend provider_overloaded example_task example_store)) = [1]
   \<and> sleeps (snd (run_task example_backend provider_overloaded example_task example_store)) = []
   \<and> map status (snapshots (snd (run_task example_backend provider_overloaded example_task example_store)))
       = [RUNNING, FAILED]
   \<and> map_option status
        (fst (run_task example_backend provider_overloaded example_task example_store) ''job-1'')
       = Some FAILED
   \<and> map_option attempts
        (fst (run_task example_backend provider_overloaded example_task example_store) ''job-1'')
       = Some 1
   \<and> map_option error
        (fst (run_task example_backend provider_overloaded example_task example_store) ''job-1'')
       = Some (Some (''Failed to generate visualization of type '' @ [CHR 0x27] @ ''Flowchart''
                     @ [CHR 0x27] @ '': Flowchart generation failed: 503 UNAVAILABLE''))"
  by code_simp

text \<open>
  On the program, for a job created by \<open>visualize\<close> and run by its background task,
  whatever the provider does: in the created job and in every state the task
  writes, the error is present exactly when the job is \<open>FAILED\<close>, and no state is
  mid-retry, since the task never retries.
\<close>

lemma program_error_iff_failed:
  assumes "visualize request new_id now jobs0 = (Inr (resp, t), jobs1)"
  shows "(\<exists>j0. jobs1 (task_job_id t) = Some j0
            \<and> (error_present j0 \<longleftrightarrow> status j0 = FAILED) \<and> \<not> mid_retry j0)
       \<and> (\<forall>j \<in> set (snapshots (snd (run_task be world t jobs1))).
            (error_present j \<longleftrightarrow> status j = FAILED) \<and> \<not> mid_retry j
            \<and> (status j = SUCCEEDED \<longrightarrow> error j = None))"
proof -
  obtain j0 where j0: "jobs1 (task_job_id t) = Some j0" "error j0 = None" "status j0 = PENDING"
      "attempts j0 = 0"
    using assms by (auto simp: visualize_def Let_def split: if_splits)
  have a: "(error_present j0 \<longleftrightarrow> status j0 = FAILED) \<and> \<not> mid_retry j0"
    using j0 by (simp add: error_present_def mid_retry_def)
  from run_task_single_attempt[where jobs = jobs1 and t = t and job = j0 and be = be
         and world = world, OF j0(1)]
  obtain job2 where r: "run_task be world t jobs1 =
             (jobs1(task_job_id t \<mapsto> job2),
              [Stored (running j0 1 (started_at (world 1))), Generate 1, Stored job2])"
      "attempts job2 = 1"
      "(status job2 = SUCCEEDED \<and> error job2 = error j0)
       \<or> (status job2 = FAILED \<and> error_present job2)"
    by (auto simp: error_present_def)
  have b: "(error_present j \<longleftrightarrow> status j = FAILED) \<and> \<not> mid_retry j
            \<and> (status j = SUCCEEDED \<longrightarrow> error j = None)"
    if "j \<in> set (snapshots (snd (run_task be world t jobs1)))" for j
  proof -
    have "j = running j0 1 (started_at (world 1)) \<or> j = job2"
      using that by (simp add: r(1))
    then show ?thesis
    proof
      assume "j = running j0 1 (started_at (world 1))"
      then show ?thesis using j0 by (simp add: running_def error_present_def mid_retry_def)
    next
      assume "j = job2"
      then show ?thesis using r(2,3) j0 by (auto simp: error_present_def mid_retry_def)
    qed
  qed
  show ?thesis using j0(1) a b by blast
qed

subsection \<open>The retry branch on its own\<close>

text \<open>
  The \<open>ServerError\<close> handler of the job runner does retry when such an error reaches
  it: with the awaited call raising the overload error and then returning, the
  runner goes back to \<open>PENDING\<close>, sleeps and calls again. In the program this branch
  is never entered, because \<open>generate_visualization\<close> raises only \<open>ValueError\<close> and
  \<open>RuntimeError\<close>.
\<close>

lemma retry_branch_retries:
  "map (\<lambda>j. (status j, attempts j))
     (snapshots (snd (run_visualization_job overloaded_then_success ''job-1'' example_store)))
     = [(RUNNING, 1), (PENDING, 1), (RUNNING, 2), (SUCCEEDED, 2)]
   \<and> generates (snd (run_visualization_job overloaded_then_success ''job-1'' example_store)) = [1, 2]
   \<and> sleeps (snd (run_visualization_job overloaded_then_success ''job-1'' example_store)) = [3 / 2]"
  by code_simp


end
